theory Spec2Isabelle
  imports Main "HOL-Library.Word"
begin

section \<open>Strings, errors and JSON values\<close>

text \<open>
  A JavaScript string is a sequence of 16-bit code units. String literals of the
  script are written with \<open>lit\<close>, which maps each ASCII character to its code unit.
\<close>

type_synonym code_unit = "16 word"
type_synonym jsstring = "code_unit list"

definition lit :: "string \<Rightarrow> jsstring" where
  "lit s = map (\<lambda>c. of_nat (of_char c)) s"

text \<open>A line break of a template literal followed by \<open>n\<close> blanks of indentation.\<close>

definition nl :: "nat \<Rightarrow> jsstring" where
  "nl n = 0x0A # replicate n 0x20"

text \<open>
  The exceptions that the script can meet: \<open>TypeError\<close> (reading a property of
  \<open>null\<close> or \<open>undefined\<close>, calling something that is not a function, converting an
  object without a usable \<open>toString\<close>, a rejected \<open>fetch\<close>), \<open>SyntaxError\<close> (a body
  that is not JSON) and \<open>URIError\<close> (an unpaired surrogate in \<open>encodeURIComponent\<close>).
\<close>

datatype error = TypeError | SyntaxError | URIError

text \<open>
  The values that \<open>response.json()\<close> produces. \<open>Num\<close> holds the integral numbers;
  numbers with a fractional part are outside the model. \<open>Obj\<close> holds the own
  properties in the order in which \<open>Object.entries\<close> enumerates them. A JavaScript
  value is a \<open>json option\<close>, \<open>None\<close> being \<open>undefined\<close>.
\<close>

datatype json =
    Null
  | Bool bool
  | Num int
  | Str jsstring
  | Arr "json list"
  | Obj "(jsstring \<times> json) list"

type_synonym jsval = "json option"

text \<open>
  Two conversions of the JavaScript runtime rest on floating-point arithmetic and
  are parameters of the model. \<open>string_positive rt s\<close> holds when \<open>StringToNumber\<close>
  reads from \<open>s\<close> a number greater than zero. \<open>large_number_string rt k\<close> is what
  \<open>Number::toString\<close> gives for an integral number \<open>k\<close> of at least \<open>2^53\<close>: from
  there on not every integer is a double, and \<open>Number::toString\<close> writes the
  shortest digits that round to \<open>k\<close>, padded with zeros below \<open>10^21\<close> and in
  exponent notation above.
\<close>

record runtime =
  string_positive :: "jsstring \<Rightarrow> bool"
  large_number_string :: "int \<Rightarrow> jsstring"

subsection \<open>ToString\<close>

fun digits :: "nat \<Rightarrow> jsstring" where
  "digits n =
     (if n < 10 then [of_nat (48 + n)] else digits (n div 10) @ [of_nat (48 + n mod 10)])"

declare digits.simps [simp del]

text \<open>
  \<open>Number::toString\<close> of an integral number: a minus sign for a negative number,
  then the decimal numeral of the magnitude when it is below \<open>2^53\<close>, where every
  integer is a double and its shortest digits are its numeral.
\<close>

definition unsigned_to_string :: "runtime \<Rightarrow> int \<Rightarrow> jsstring" where
  "unsigned_to_string rt k = (if k < 2 ^ 53 then digits (nat k) else large_number_string rt k)"

definition number_to_string :: "runtime \<Rightarrow> int \<Rightarrow> jsstring" where
  "number_to_string rt i =
     (if i < 0 then 0x2D # unsigned_to_string rt (- i) else unsigned_to_string rt i)"

fun join :: "jsstring \<Rightarrow> jsstring list \<Rightarrow> jsstring" where
  "join sep [] = []"
| "join sep [s] = s"
| "join sep (s # t # ts) = s @ sep @ join sep (t # ts)"

text \<open>
  \<open>ToString\<close> of a parsed JSON value. An array goes through \<open>Array.prototype.join\<close>
  (\<open>null\<close> elements give the empty string). A plain object gives \<open>[object Object]\<close>
  through \<open>Object.prototype.toString\<close>, unless it has an own property \<open>toString\<close>:
  that one shadows the inherited method, is not callable, and the inherited
  \<open>valueOf\<close> returns the object itself, so the conversion throws a \<open>TypeError\<close>.
\<close>

fun to_string :: "runtime \<Rightarrow> json \<Rightarrow> error + jsstring"
  and elements_to_strings :: "runtime \<Rightarrow> json list \<Rightarrow> error + jsstring list" where
  "to_string rt Null = Inr (lit ''null'')"
| "to_string rt (Bool b) = Inr (if b then lit ''true'' else lit ''false'')"
| "to_string rt (Num n) = Inr (number_to_string rt n)"
| "to_string rt (Str s) = Inr s"
| "to_string rt (Arr xs) =
     (case elements_to_strings rt xs of
        Inl e \<Rightarrow> Inl e
      | Inr ss \<Rightarrow> Inr (join (lit '','') ss))"
| "to_string rt (Obj kvs) =
     (if map_of kvs (lit ''toString'') \<noteq> None then Inl TypeError
      else Inr (lit ''[object Object]''))"
| "elements_to_strings rt [] = Inr []"
| "elements_to_strings rt (x # xs) =
     (case (if x = Null then Inr [] else to_string rt x) of
        Inl e \<Rightarrow> Inl e
      | Inr s \<Rightarrow>
          (case elements_to_strings rt xs of
             Inl e \<Rightarrow> Inl e
           | Inr ss \<Rightarrow> Inr (s # ss)))"

definition value_to_string :: "runtime \<Rightarrow> jsval \<Rightarrow> error + jsstring" where
  "value_to_string rt v =
     (case v of None \<Rightarrow> Inr (lit ''undefined'') | Some j \<Rightarrow> to_string rt j)"

text \<open>A template substitution \<open>${e}\<close>: evaluate \<open>e\<close>, then convert it to a string.\<close>

definition subst :: "runtime \<Rightarrow> error + jsval \<Rightarrow> error + jsstring" where
  "subst rt r = (case r of Inl e \<Rightarrow> Inl e | Inr v \<Rightarrow> value_to_string rt v)"

subsection \<open>Truthiness, property reads, comparison with zero\<close>

definition truthy :: "jsval \<Rightarrow> bool" where
  "truthy v =
     (case v of
        None \<Rightarrow> False
      | Some Null \<Rightarrow> False
      | Some (Bool b) \<Rightarrow> b
      | Some (Num n) \<Rightarrow> n \<noteq> 0
      | Some (Str s) \<Rightarrow> s \<noteq> []
      | Some (Arr xs) \<Rightarrow> True
      | Some (Obj kvs) \<Rightarrow> True)"

text \<open>
  The property read \<open>v.k\<close> for the data properties that the script reads
  (\<open>participants\<close>, \<open>description\<close>, \<open>schedule\<close>, \<open>max_participants\<close>,
  \<open>current_participants\<close>, \<open>length\<close>, \<open>message\<close>, \<open>detail\<close>). None of them is
  defined on a built-in prototype, so an object answers with its own property or
  \<open>undefined\<close>, an array and a string answer \<open>length\<close> only, a number and a boolean
  answer \<open>undefined\<close>, and \<open>null\<close> and \<open>undefined\<close> throw.
\<close>

definition get_prop :: "jsval \<Rightarrow> jsstring \<Rightarrow> error + jsval" where
  "get_prop v k =
     (case v of
        None \<Rightarrow> Inl TypeError
      | Some Null \<Rightarrow> Inl TypeError
      | Some (Bool b) \<Rightarrow> Inr None
      | Some (Num n) \<Rightarrow> Inr None
      | Some (Str s) \<Rightarrow> Inr (if k = lit ''length'' then Some (Num (int (length s))) else None)
      | Some (Arr xs) \<Rightarrow> Inr (if k = lit ''length'' then Some (Num (int (length xs))) else None)
      | Some (Obj kvs) \<Rightarrow> Inr (map_of kvs k))"

text \<open>
  The comparison \<open>v > 0\<close>. A string operand is converted by \<open>StringToNumber\<close>. An
  array is first converted to its string; a plain object converts to
  \<open>[object Object]\<close>, which reads as \<open>NaN\<close>, or throws as in \<open>to_string\<close>.
\<close>

definition greater_than_zero :: "runtime \<Rightarrow> jsval \<Rightarrow> error + bool" where
  "greater_than_zero rt v =
     (case v of
        None \<Rightarrow> Inr False
      | Some Null \<Rightarrow> Inr False
      | Some (Bool b) \<Rightarrow> Inr b
      | Some (Num n) \<Rightarrow> Inr (0 < n)
      | Some (Str s) \<Rightarrow> Inr (string_positive rt s)
      | Some (Arr xs) \<Rightarrow>
          (case to_string rt (Arr xs) of
             Inl e \<Rightarrow> Inl e
           | Inr s \<Rightarrow> Inr (string_positive rt s))
      | Some (Obj kvs) \<Rightarrow>
          (case to_string rt (Obj kvs) of Inl e \<Rightarrow> Inl e | Inr s \<Rightarrow> Inr False))"

text \<open>
  \<open>Object.entries\<close>: the own enumerable properties. An array and a string enumerate
  their indices, a number and a boolean have none, \<open>null\<close> throws.
\<close>

definition index_keys :: "nat \<Rightarrow> jsstring list" where
  "index_keys n = map digits [0..<n]"

definition object_entries :: "json \<Rightarrow> error + (jsstring \<times> json) list" where
  "object_entries v =
     (case v of
        Null \<Rightarrow> Inl TypeError
      | Bool b \<Rightarrow> Inr []
      | Num n \<Rightarrow> Inr []
      | Str s \<Rightarrow> Inr (zip (index_keys (length s)) (map (\<lambda>c. Str [c]) s))
      | Arr xs \<Rightarrow> Inr (zip (index_keys (length xs)) xs)
      | Obj kvs \<Rightarrow> Inr kvs)"

subsection \<open>String built-ins used by the script\<close>

text \<open>\<open>String.prototype.trim\<close> strips WhiteSpace and LineTerminator code points.\<close>

definition is_white :: "code_unit \<Rightarrow> bool" where
  "is_white c =
     (c \<in> {0x09, 0x0A, 0x0B, 0x0C, 0x0D, 0x20, 0xA0, 0x1680, 0x2028, 0x2029, 0x202F,
            0x205F, 0x3000, 0xFEFF}
      \<or> (0x2000 \<le> c \<and> c \<le> 0x200A))"

definition trim :: "jsstring \<Rightarrow> jsstring" where
  "trim s = rev (dropWhile is_white (rev (dropWhile is_white s)))"

fun starts_with :: "jsstring \<Rightarrow> jsstring \<Rightarrow> bool" where
  "starts_with s [] = True"
| "starts_with [] (c # cs) = False"
| "starts_with (x # xs) (c # cs) = (x = c \<and> starts_with xs cs)"

fun string_includes :: "jsstring \<Rightarrow> jsstring \<Rightarrow> bool" where
  "string_includes [] t = (t = [])"
| "string_includes (x # xs) t = (starts_with (x # xs) t \<or> string_includes xs t)"

text \<open>
  \<open>encodeURIComponent\<close>: a code unit of the unreserved set (letters, digits and
  \<open>- _ . ! ~ * ' ( )\<close>) is kept; any other code point is written as the
  percent-escaped bytes of its UTF-8 encoding; an unpaired surrogate throws.
\<close>

definition unreserved :: "code_unit \<Rightarrow> bool" where
  "unreserved c =
     ((0x41 \<le> c \<and> c \<le> 0x5A) \<or> (0x61 \<le> c \<and> c \<le> 0x7A) \<or> (0x30 \<le> c \<and> c \<le> 0x39)
      \<or> c \<in> {0x2D, 0x5F, 0x2E, 0x21, 0x7E, 0x2A, 0x27, 0x28, 0x29})"

definition is_high_surrogate :: "code_unit \<Rightarrow> bool" where
  "is_high_surrogate c = (0xD800 \<le> c \<and> c \<le> 0xDBFF)"

definition is_low_surrogate :: "code_unit \<Rightarrow> bool" where
  "is_low_surrogate c = (0xDC00 \<le> c \<and> c \<le> 0xDFFF)"

definition pair_code_point :: "code_unit \<Rightarrow> code_unit \<Rightarrow> nat" where
  "pair_code_point hi lo = (unat hi - 0xD800) * 0x400 + (unat lo - 0xDC00) + 0x10000"

definition utf8 :: "nat \<Rightarrow> nat list" where
  "utf8 cp =
     (if cp < 0x80 then [cp]
      else if cp < 0x800 then [0xC0 + cp div 64, 0x80 + cp mod 64]
      else if cp < 0x10000 then
        [0xE0 + cp div 4096, 0x80 + (cp div 64) mod 64, 0x80 + cp mod 64]
      else
        [0xF0 + cp div 262144, 0x80 + (cp div 4096) mod 64, 0x80 + (cp div 64) mod 64,
         0x80 + cp mod 64])"

definition hex_digit :: "nat \<Rightarrow> code_unit" where
  "hex_digit n = of_nat (if n < 10 then 48 + n else 55 + n)"

definition percent :: "nat \<Rightarrow> jsstring" where
  "percent b = [0x25, hex_digit (b div 16), hex_digit (b mod 16)]"

definition escape :: "nat \<Rightarrow> jsstring" where
  "escape cp = concat (map percent (utf8 cp))"

fun encodeURIComponent :: "jsstring \<Rightarrow> error + jsstring" where
  "encodeURIComponent [] = Inr []"
| "encodeURIComponent (c # cs) =
     (if unreserved c then
        (case encodeURIComponent cs of Inl e \<Rightarrow> Inl e | Inr r \<Rightarrow> Inr (c # r))
      else if is_low_surrogate c then Inl URIError
      else if is_high_surrogate c then
        (case cs of
           [] \<Rightarrow> Inl URIError
         | d # ds \<Rightarrow>
             if is_low_surrogate d then
               (case encodeURIComponent ds of
                  Inl e \<Rightarrow> Inl e
                | Inr r \<Rightarrow> Inr (escape (pair_code_point c d) @ r))
             else Inl URIError)
      else
        (case encodeURIComponent cs of
           Inl e \<Rightarrow> Inl e
         | Inr r \<Rightarrow> Inr (escape (unat c) @ r)))"

text \<open>The strings that \<open>encodeURIComponent\<close> accepts: every surrogate is paired.\<close>

fun well_formed :: "jsstring \<Rightarrow> bool" where
  "well_formed [] = True"
| "well_formed (c # cs) =
     (if is_low_surrogate c then False
      else if is_high_surrogate c then
        (case cs of [] \<Rightarrow> False | d # ds \<Rightarrow> is_low_surrogate d \<and> well_formed ds)
      else well_formed cs)"

section \<open>The page: container, input field, alerts, console and network\<close>

text \<open>
  A DOM element as far as the script touches it: its tag, its class, the markup
  last assigned to \<open>innerHTML\<close>, and the nodes appended since that assignment.
  Assigning \<open>innerHTML\<close> replaces all content.
\<close>

datatype node =
  Node (tagName: jsstring) (className: jsstring) (innerHTML: jsstring) (appended: "node list")

definition set_innerHTML :: "node \<Rightarrow> jsstring \<Rightarrow> node" where
  "set_innerHTML n html = Node (tagName n) (className n) html []"

definition set_className :: "node \<Rightarrow> jsstring \<Rightarrow> node" where
  "set_className n c = Node (tagName n) c (innerHTML n) (appended n)"

definition appendChild :: "node \<Rightarrow> node \<Rightarrow> node" where
  "appendChild n c = Node (tagName n) (className n) (innerHTML n) (appended n @ [c])"

definition createElement :: "jsstring \<Rightarrow> node" where
  "createElement t = Node t [] [] []"

text \<open>A call of \<open>fetch\<close>: the method and the URL string handed to it.\<close>

datatype http_method = GET | POST

record request =
  request_method :: http_method
  url :: jsstring

text \<open>
  A response: its status and its body as \<open>response.json()\<close> reads it, \<open>None\<close> when
  the body is not JSON text (the promise of \<open>json()\<close> is then rejected).
\<close>

record response =
  status :: nat
  body :: "json option"

definition ok :: "response \<Rightarrow> bool" where
  "ok r = (200 \<le> status r \<and> status r \<le> 299)"

definition response_json :: "response \<Rightarrow> error + json" where
  "response_json r = (case body r of None \<Rightarrow> Inl SyntaxError | Some j \<Rightarrow> Inr j)"

text \<open>
  The state of the page. \<open>activitiesContainer\<close> and \<open>emailInput\<close> are the results of the
  two \<open>getElementById\<close> calls of lines 1 and 2: the container element and the value
  of the input field, or \<open>None\<close> when the lookup gave \<open>null\<close>. \<open>net\<close> is the behaviour
  of transport and server: the outcome of the \<open>n\<close>-th request issued, either a
  rejected \<open>fetch\<close> or a response.
\<close>

record world =
  activitiesContainer :: "node option"
  emailInput :: "jsstring option"
  alerts :: "jsstring list"
  console :: "(jsstring \<times> error) list"
  requests :: "request list"
  net :: "nat \<Rightarrow> error + response"

definition alert :: "world \<Rightarrow> jsstring \<Rightarrow> world" where
  "alert w msg = w\<lparr>alerts := alerts w @ [msg]\<rparr>"

definition console_error :: "world \<Rightarrow> jsstring \<Rightarrow> error \<Rightarrow> world" where
  "console_error w msg e = w\<lparr>console := console w @ [(msg, e)]\<rparr>"

definition fetch :: "world \<Rightarrow> request \<Rightarrow> (error + response) \<times> world" where
  "fetch w r = (net w (length (requests w)), w\<lparr>requests := requests w @ [r]\<rparr>)"

section \<open>displayActivities\<close>

definition no_participants :: jsstring where
  \<open>no_participants = lit ''<p class="no-participants">No participants yet</p>''\<close>

definition participants_ul :: "jsstring list \<Rightarrow> jsstring" where
  \<open>participants_ul items =
     lit ''<ul class="participants-list">'' @ nl 16 @ join [] items @ nl 15 @ lit ''</ul>''\<close>

fun li_items :: "runtime \<Rightarrow> json list \<Rightarrow> error + jsstring list" where
  "li_items rt [] = Inr []"
| "li_items rt (email # emails) =
     (case to_string rt email of
        Inl e \<Rightarrow> Inl e
      | Inr s \<Rightarrow>
          (case li_items rt emails of
             Inl e \<Rightarrow> Inl e
           | Inr items \<Rightarrow> Inr ((lit ''<li>'' @ s @ lit ''</li>'') # items)))"

text \<open>
  Lines 24 to 28. The call \<open>details.participants.map(...)\<close> succeeds on an array only:
  no other value has a callable \<open>map\<close>.
\<close>

definition participantsList :: "runtime \<Rightarrow> json \<Rightarrow> error + jsstring" where
  "participantsList rt details =
     (case get_prop (Some details) (lit ''participants'') of
        Inl e \<Rightarrow> Inl e
      | Inr p \<Rightarrow>
          (case (if truthy p then
                   (case get_prop p (lit ''length'') of
                      Inl e \<Rightarrow> Inl e
                    | Inr n \<Rightarrow> greater_than_zero rt n)
                 else Inr False) of
             Inl e \<Rightarrow> Inl e
           | Inr True \<Rightarrow>
               (case p of
                  Some (Arr emails) \<Rightarrow>
                    (case li_items rt emails of
                       Inl e \<Rightarrow> Inl e
                     | Inr items \<Rightarrow> Inr (participants_ul items))
                | _ \<Rightarrow> Inl TypeError)
           | Inr False \<Rightarrow> Inr no_participants))"

text \<open>Line 34: \<open>details.current_participants || details.participants.length\<close>.\<close>

definition capacity :: "json \<Rightarrow> error + jsval" where
  "capacity details =
     (case get_prop (Some details) (lit ''current_participants'') of
        Inl e \<Rightarrow> Inl e
      | Inr c \<Rightarrow>
          if truthy c then Inr c
          else
            (case get_prop (Some details) (lit ''participants'') of
               Inl e \<Rightarrow> Inl e
             | Inr p \<Rightarrow> get_prop p (lit ''length'')))"

text \<open>The template of lines 30 to 40 with its substitutions already converted.\<close>

definition card_markup ::
  "jsstring \<Rightarrow> jsstring \<Rightarrow> jsstring \<Rightarrow> jsstring \<Rightarrow> jsstring \<Rightarrow> jsstring \<Rightarrow> jsstring" where
  \<open>card_markup name description schedule cap max_participants plist =
     nl 12 @ lit ''<h2>'' @ name @ lit ''</h2>'' @
     nl 12 @ lit ''<p class="description">'' @ description @ lit ''</p>'' @
     nl 12 @ lit ''<p class="schedule"><strong>Schedule:</strong> '' @ schedule @ lit ''</p>'' @
     nl 12 @ lit ''<p class="capacity"><strong>Capacity:</strong> '' @ cap @ lit ''/'' @
       max_participants @ lit ''</p>'' @
     nl 12 @ lit ''<div class="participants-section">'' @
     nl 16 @ lit ''<h3>Participants:</h3>'' @
     nl 16 @ plist @
     nl 12 @ lit ''</div>'' @
     nl 12 @ lit ''<button onclick="signUp('' @ [0x27] @ name @ [0x27] @ lit '')">Sign Up</button>'' @
     nl 8\<close>

definition card_innerHTML :: "runtime \<Rightarrow> jsstring \<Rightarrow> json \<Rightarrow> error + jsstring" where
  "card_innerHTML rt name details =
     (case participantsList rt details of
        Inl e \<Rightarrow> Inl e
      | Inr plist \<Rightarrow>
     (case subst rt (get_prop (Some details) (lit ''description'')) of
        Inl e \<Rightarrow> Inl e
      | Inr d \<Rightarrow>
     (case subst rt (get_prop (Some details) (lit ''schedule'')) of
        Inl e \<Rightarrow> Inl e
      | Inr s \<Rightarrow>
     (case subst rt (capacity details) of
        Inl e \<Rightarrow> Inl e
      | Inr c \<Rightarrow>
     (case subst rt (get_prop (Some details) (lit ''max_participants'')) of
        Inl e \<Rightarrow> Inl e
      | Inr m \<Rightarrow> Inr (card_markup name d s c m plist))))))"

definition activity_card :: "jsstring \<Rightarrow> node" where
  "activity_card html =
     set_innerHTML (set_className (createElement (lit ''div'')) (lit ''activity-card'')) html"

text \<open>
  The loop of lines 20 to 43. The result is the exception that ends the loop, if
  any, and the page as it is then: cards appended before the exception stay.
  A statement that uses the container throws when the lookup of line 1 gave
  \<open>null\<close>.
\<close>

fun displayActivities_loop ::
  "runtime \<Rightarrow> (jsstring \<times> json) list \<Rightarrow> world \<Rightarrow> error option \<times> world" where
  "displayActivities_loop rt [] w = (None, w)"
| "displayActivities_loop rt ((name, details) # entries) w =
     (case card_innerHTML rt name details of
        Inl e \<Rightarrow> (Some e, w)
      | Inr html \<Rightarrow>
          (case activitiesContainer w of
             None \<Rightarrow> (Some TypeError, w)
           | Some container \<Rightarrow>
               displayActivities_loop rt entries
                 (w\<lparr>activitiesContainer :=
                      Some (appendChild container (activity_card html))\<rparr>)))"

definition displayActivities :: "runtime \<Rightarrow> json \<Rightarrow> world \<Rightarrow> error option \<times> world" where
  "displayActivities rt activities w =
     (case activitiesContainer w of
        None \<Rightarrow> (Some TypeError, w)
      | Some container \<Rightarrow>
          (let w1 = w\<lparr>activitiesContainer := Some (set_innerHTML container [])\<rparr> in
           case object_entries activities of
             Inl e \<Rightarrow> (Some e, w1)
           | Inr entries \<Rightarrow> displayActivities_loop rt entries w1))"

section \<open>loadActivities\<close>

text \<open>
  An \<open>async\<close> function returns a promise; the first component of the result is
  \<open>None\<close> when the promise is fulfilled and the exception when it is rejected.
\<close>

definition loadActivities_try :: "runtime \<Rightarrow> world \<Rightarrow> error option \<times> world" where
  "loadActivities_try rt w =
     (case fetch w \<lparr>request_method = GET, url = lit ''/activities''\<rparr> of
        (Inl e, w1) \<Rightarrow> (Some e, w1)
      | (Inr response, w1) \<Rightarrow>
          (case response_json response of
             Inl e \<Rightarrow> (Some e, w1)
           | Inr activities \<Rightarrow> displayActivities rt activities w1))"

definition load_error_markup :: jsstring where
  "load_error_markup = lit ''<p>Error loading activities. Please try again later.</p>''"

text \<open>
  The assignment of line 12 is inside the \<open>catch\<close> block: when it throws, nothing
  catches it and the promise is rejected.
\<close>

definition loadActivities :: "runtime \<Rightarrow> world \<Rightarrow> error option \<times> world" where
  "loadActivities rt w =
     (case loadActivities_try rt w of
        (None, w1) \<Rightarrow> (None, w1)
      | (Some e, w1) \<Rightarrow>
          (let w2 = console_error w1 (lit ''Error loading activities:'') e in
           case activitiesContainer w2 of
             None \<Rightarrow> (Some TypeError, w2)
           | Some container \<Rightarrow>
               (None, w2\<lparr>activitiesContainer :=
                           Some (set_innerHTML container load_error_markup)\<rparr>)))"

section \<open>signUp\<close>

definition signup_url :: "jsstring \<Rightarrow> jsstring \<Rightarrow> jsstring" where
  "signup_url name email = lit ''/activities/'' @ name @ lit ''/signup?email='' @ email"

text \<open>
  The \<open>try\<close> block of lines 60 to 72. The call \<open>loadActivities()\<close> of line 68 is not
  awaited: its outcome does not reach \<open>signUp\<close>, and the model runs it to completion
  at the point of the call.
\<close>

definition signUp_try ::
  "runtime \<Rightarrow> jsstring \<Rightarrow> jsstring \<Rightarrow> world \<Rightarrow> error option \<times> world" where
  "signUp_try rt activityName email w =
     (case encodeURIComponent activityName of
        Inl e \<Rightarrow> (Some e, w)
      | Inr name \<Rightarrow>
     (case encodeURIComponent email of
        Inl e \<Rightarrow> (Some e, w)
      | Inr mail \<Rightarrow>
     (case fetch w \<lparr>request_method = POST, url = signup_url name mail\<rparr> of
        (Inl e, w1) \<Rightarrow> (Some e, w1)
      | (Inr response, w1) \<Rightarrow>
          if ok response then
            (case response_json response of
               Inl e \<Rightarrow> (Some e, w1)
             | Inr result \<Rightarrow>
                 (case subst rt (get_prop (Some result) (lit ''message'')) of
                    Inl e \<Rightarrow> (Some e, w1)
                  | Inr msg \<Rightarrow> (None, snd (loadActivities rt (alert w1 msg)))))
          else
            (case response_json response of
               Inl e \<Rightarrow> (Some e, w1)
             | Inr error \<Rightarrow>
                 (case subst rt (get_prop (Some error) (lit ''detail'')) of
                    Inl e \<Rightarrow> (Some e, w1)
                  | Inr detail \<Rightarrow> (None, alert w1 (lit ''Error: '' @ detail)))))))"

definition signup_error_message :: jsstring where
  "signup_error_message = lit ''Error signing up. Please try again later.''"

text \<open>
  Line 48 reads the input field before the \<open>try\<close> block: when the lookup of line 2
  gave \<open>null\<close>, it throws and the promise is rejected.
\<close>

definition signUp :: "runtime \<Rightarrow> jsstring \<Rightarrow> world \<Rightarrow> error option \<times> world" where
  "signUp rt activityName w =
     (case emailInput w of
        None \<Rightarrow> (Some TypeError, w)
      | Some field \<Rightarrow>
          (let email = trim field in
           if email = [] then (None, alert w (lit ''Please enter your email address''))
           else if \<not> string_includes email (lit ''@'') then
             (None, alert w (lit ''Please enter a valid email address''))
           else
             (case signUp_try rt activityName email w of
                (None, w1) \<Rightarrow> (None, w1)
              | (Some e, w1) \<Rightarrow>
                  (None, alert (console_error w1 (lit ''Error signing up:'') e)
                           signup_error_message))))"

section \<open>Data contract and example inputs\<close>

text \<open>
  The code units of a percent-encoded component: unreserved ones and the percent
  sign. None of them delimits a path segment or a query value.
\<close>

definition uri_char :: "code_unit \<Rightarrow> bool" where
  "uri_char c = (unreserved c \<or> c = 0x25)"

text \<open>
  The Activity records of the data contract: \<open>description\<close> and \<open>schedule\<close> are
  strings, \<open>max_participants\<close> is a number, \<open>participants\<close> is an array of strings,
  \<open>current_participants\<close> is absent or a number.
\<close>

fun is_str :: "json \<Rightarrow> bool" where
  "is_str (Str s) = True"
| "is_str _ = False"

definition is_activity :: "json \<Rightarrow> bool" where
  "is_activity v =
     (case v of
        Obj kvs \<Rightarrow>
          (case map_of kvs (lit ''description'') of Some (Str d) \<Rightarrow> True | _ \<Rightarrow> False) \<and>
          (case map_of kvs (lit ''schedule'') of Some (Str s) \<Rightarrow> True | _ \<Rightarrow> False) \<and>
          (case map_of kvs (lit ''max_participants'') of Some (Num m) \<Rightarrow> True | _ \<Rightarrow> False) \<and>
          (case map_of kvs (lit ''participants'') of
             Some (Arr ps) \<Rightarrow> list_all is_str ps
           | _ \<Rightarrow> False) \<and>
          (case map_of kvs (lit ''current_participants'') of
             None \<Rightarrow> True
           | Some (Num n) \<Rightarrow> True
           | _ \<Rightarrow> False)
      | _ \<Rightarrow> False)"

text \<open>One item of the participants list, as line 26 writes it.\<close>

definition li :: "jsstring \<Rightarrow> jsstring" where
  "li email = lit ''<li>'' @ email @ lit ''</li>''"

text \<open>
  The first three lines of a card, and what it means for an element to show an
  entry of the mapping: it is a \<open>div\<close> of class \<open>activity-card\<close> whose markup starts
  with the name, the description and the schedule of the entry.
\<close>

definition card_head :: "jsstring \<Rightarrow> jsstring \<Rightarrow> jsstring \<Rightarrow> jsstring" where
  \<open>card_head name description schedule =
     nl 12 @ lit ''<h2>'' @ name @ lit ''</h2>'' @
     nl 12 @ lit ''<p class="description">'' @ description @ lit ''</p>'' @
     nl 12 @ lit ''<p class="schedule"><strong>Schedule:</strong> '' @ schedule @ lit ''</p>''\<close>

definition shows_activity :: "jsstring \<times> json \<Rightarrow> node \<Rightarrow> bool" where
  "shows_activity entry el =
     (case snd entry of
        Obj kvs \<Rightarrow>
          (case (map_of kvs (lit ''description''), map_of kvs (lit ''schedule'')) of
             (Some (Str d), Some (Str s)) \<Rightarrow>
               tagName el = lit ''div'' \<and> className el = lit ''activity-card''
               \<and> appended el = [] \<and> starts_with (innerHTML el) (card_head (fst entry) d s)
           | _ \<Rightarrow> False)
      | _ \<Rightarrow> False)"

text \<open>
  Example inputs: a fresh page with a given content of the email field and a given
  network, a network without connection, a server that gives every request the
  same answer, and three activities.
\<close>

definition page :: "jsstring \<Rightarrow> (nat \<Rightarrow> error + response) \<Rightarrow> world" where
  "page email server =
     \<lparr>activitiesContainer = Some (Node (lit ''div'') [] [] []), emailInput = Some email,
      alerts = [], console = [], requests = [], net = server\<rparr>"

text \<open>
  A runtime for the examples. They convert no string to a number and print no
  number of magnitude \<open>2^53\<close> or more, so the two parameters are never consulted.
\<close>

definition some_runtime :: runtime where
  "some_runtime = \<lparr>string_positive = (\<lambda>s. False), large_number_string = (\<lambda>k. [])\<rparr>"

definition offline :: "nat \<Rightarrow> error + response" where
  "offline n = Inl TypeError"

definition answering :: "nat \<Rightarrow> json option \<Rightarrow> nat \<Rightarrow> error + response" where
  "answering st b n = Inr \<lparr>status = st, body = b\<rparr>"

definition chess_club :: "(jsstring \<times> json) list" where
  "chess_club =
     [(lit ''description'', Str (lit ''Learn strategies'')),
      (lit ''schedule'', Str (lit ''Mon'')),
      (lit ''max_participants'', Num 10),
      (lit ''participants'', Arr [Str (lit ''a@x.com'')])]"

definition art_club :: "(jsstring \<times> json) list" where
  "art_club =
     [(lit ''description'', Str (lit ''Paint'')),
      (lit ''schedule'', Str (lit ''Tue'')),
      (lit ''max_participants'', Num 5),
      (lit ''participants'', Arr []),
      (lit ''current_participants'', Num 3)]"

definition drama_club :: "(jsstring \<times> json) list" where
  "drama_club =
     [(lit ''description'', Str (lit ''Act'')),
      (lit ''schedule'', Str (lit ''Wed'')),
      (lit ''max_participants'', Num 20)]"

section \<open>Properties\<close>

subsection \<open>String literals\<close>

lemma code_unit_of_char_inj:
  "((of_nat (of_char c) :: 16 word) = of_nat (of_char d)) = (c = d)"
proof -
  have b: "of_char x < (65536::nat)" for x
  proof -
    have "of_char x mod 256 < (256::nat)" by simp
    then have "of_char x < (256::nat)" by (simp only: of_char_mod_256)
    then show ?thesis by (rule less_trans) simp
  qed
  have "unat (of_nat (of_char x) :: 16 word) = of_char x" for x
    using b [of x] by (simp add: unat_of_nat)
  then have "(of_nat (of_char c) :: 16 word) = of_nat (of_char d) \<Longrightarrow> (of_char c :: nat) = of_char d"
    by metis
  then show ?thesis by auto
qed

lemma lit_eq_iff [simp]: "(lit a = lit b) = (a = b)"
proof -
  have "inj (\<lambda>c. of_nat (of_char c) :: 16 word)"
    by (rule injI) (simp add: code_unit_of_char_inj)
  then have "inj (map (\<lambda>c. of_nat (of_char c) :: 16 word))" by simp
  then show ?thesis unfolding lit_def by (auto dest: injD)
qed

lemma lit_empty [simp]: "(lit a = []) = (a = [])"
  by (simp add: lit_def)

lemma string_includes_single: "string_includes s [c] = (c \<in> set s)"
  by (induction s) auto

lemma lit_at: "lit ''@'' = [0x40]"
  by (simp add: lit_def)

lemma includes_at: "string_includes s (lit ''@'') = (0x40 \<in> set s)"
  by (simp add: lit_at string_includes_single)

lemma starts_with_append: "starts_with (a @ b) a"
  by (induction a) simp_all

subsection \<open>What rendering and loading leave unchanged\<close>

lemma displayActivities_loop_frame:
  "emailInput (snd (displayActivities_loop rt es w)) = emailInput w"
  "alerts (snd (displayActivities_loop rt es w)) = alerts w"
  "console (snd (displayActivities_loop rt es w)) = console w"
  "requests (snd (displayActivities_loop rt es w)) = requests w"
  "net (snd (displayActivities_loop rt es w)) = net w"
  by (induction es arbitrary: w; auto split: sum.splits option.splits)+

lemma displayActivities_loop_container:
  "activitiesContainer w \<noteq> None \<Longrightarrow>
     activitiesContainer (snd (displayActivities_loop rt es w)) \<noteq> None"
  by (induction es arbitrary: w) (auto split: sum.splits option.splits)

lemma displayActivities_frame:
  "emailInput (snd (displayActivities rt j w)) = emailInput w"
  "alerts (snd (displayActivities rt j w)) = alerts w"
  "console (snd (displayActivities rt j w)) = console w"
  "requests (snd (displayActivities rt j w)) = requests w"
  "net (snd (displayActivities rt j w)) = net w"
  by (simp_all add: displayActivities_def Let_def displayActivities_loop_frame
      split: sum.splits option.splits)

lemma displayActivities_container:
  assumes "activitiesContainer w \<noteq> None"
  shows "activitiesContainer (snd (displayActivities rt j w)) \<noteq> None"
proof -
  from assms obtain c where c: "activitiesContainer w = Some c" by auto
  show ?thesis
  proof (cases "object_entries j")
    case (Inl e)
    with c show ?thesis by (simp add: displayActivities_def)
  next
    case (Inr es)
    have "activitiesContainer (snd (displayActivities_loop rt es
        (w\<lparr>activitiesContainer := Some (set_innerHTML c [])\<rparr>))) \<noteq> None"
      by (rule displayActivities_loop_container) simp
    with c Inr show ?thesis by (simp add: displayActivities_def)
  qed
qed

lemma loadActivities_try_frame:
  "emailInput (snd (loadActivities_try rt w)) = emailInput w"
  "alerts (snd (loadActivities_try rt w)) = alerts w"
  "console (snd (loadActivities_try rt w)) = console w"
  "requests (snd (loadActivities_try rt w)) =
     requests w @ [\<lparr>request_method = GET, url = lit ''/activities''\<rparr>]"
  "net (snd (loadActivities_try rt w)) = net w"
  by (simp_all add: loadActivities_try_def fetch_def
      displayActivities_frame split: sum.splits prod.splits)

lemma loadActivities_try_container:
  assumes "activitiesContainer w \<noteq> None"
  shows "activitiesContainer (snd (loadActivities_try rt w)) \<noteq> None"
proof (cases "net w (length (requests w))")
  case (Inl e)
  with assms show ?thesis by (simp add: loadActivities_try_def fetch_def)
next
  case (Inr r)
  show ?thesis
  proof (cases "body r")
    case None
    with Inr assms show ?thesis
      by (simp add: loadActivities_try_def fetch_def response_json_def)
  next
    case (Some j)
    let ?w = "w\<lparr>requests := requests w @ [\<lparr>request_method = GET, url = lit ''/activities''\<rparr>]\<rparr>"
    have "activitiesContainer (snd (displayActivities rt j ?w)) \<noteq> None"
      by (rule displayActivities_container) (simp add: assms)
    with Inr Some show ?thesis
      by (simp add: loadActivities_try_def fetch_def response_json_def)
  qed
qed

lemma loadActivities_fulfilled:
  assumes "activitiesContainer w \<noteq> None"
  shows "fst (loadActivities rt w) = None"
proof -
  from assms have "activitiesContainer (snd (loadActivities_try rt w)) \<noteq> None"
    by (rule loadActivities_try_container)
  then show ?thesis
    by (auto simp: loadActivities_def Let_def console_error_def
        split: prod.splits option.splits)
qed

lemma loadActivities_frame:
  "emailInput (snd (loadActivities rt w)) = emailInput w"
  "alerts (snd (loadActivities rt w)) = alerts w"
  "requests (snd (loadActivities rt w)) =
     requests w @ [\<lparr>request_method = GET, url = lit ''/activities''\<rparr>]"
  "net (snd (loadActivities rt w)) = net w"
  using loadActivities_try_frame [of rt w]
  by (auto simp: loadActivities_def Let_def console_error_def split: prod.splits option.splits)

lemma signUp_fulfilled: "emailInput w \<noteq> None \<Longrightarrow> fst (signUp rt a w) = None"
  by (auto simp: signUp_def Let_def split: prod.splits option.splits)

subsection \<open>Percent-encoding\<close>

lemma hex_digit_unreserved: "n < 16 \<Longrightarrow> unreserved (hex_digit n)"
proof -
  assume n: "n < 16"
  have "unat (hex_digit n) = (if n < 10 then 48 + n else 55 + n)"
    using n by (simp add: hex_digit_def unat_of_nat)
  then have "(48 \<le> unat (hex_digit n) \<and> unat (hex_digit n) \<le> 57)
      \<or> (65 \<le> unat (hex_digit n) \<and> unat (hex_digit n) \<le> 90)"
    using n by simp
  then show ?thesis
    unfolding unreserved_def word_le_nat_alt by auto
qed

lemma percent_safe: "b < 256 \<Longrightarrow> list_all uri_char (percent b)"
proof -
  assume b: "b < 256"
  then have "b div 16 < 16" "b mod 16 < 16" by auto
  then show ?thesis
    by (simp add: percent_def uri_char_def hex_digit_unreserved)
qed

lemma utf8_bytes: "cp < 0x110000 \<Longrightarrow> b \<in> set (utf8 cp) \<Longrightarrow> b < 256"
  by (auto simp: utf8_def split: if_splits)

lemma escape_safe: "cp < 0x110000 \<Longrightarrow> list_all uri_char (escape cp)"
  by (auto simp: escape_def list_all_iff dest!: utf8_bytes percent_safe)

lemma pair_code_point_bound:
  "is_high_surrogate hi \<Longrightarrow> is_low_surrogate lo \<Longrightarrow> pair_code_point hi lo < 0x110000"
  unfolding is_high_surrogate_def is_low_surrogate_def pair_code_point_def word_le_nat_alt
  by simp arith

lemma unit_bound: "unat (c :: code_unit) < 0x110000"
proof -
  have "unat c < 2 ^ LENGTH(16)" by (rule unsigned_less)
  then show ?thesis by simp
qed

lemma encodeURIComponent_safe:
  "encodeURIComponent s = Inr r \<Longrightarrow> list_all uri_char r"
proof (induction s arbitrary: r rule: encodeURIComponent.induct)
  case 1
  then show ?case by simp
next
  case (2 c cs)
  show ?case
    using "2.prems" "2.IH"
    by (auto simp: uri_char_def [of c] escape_safe pair_code_point_bound unit_bound
        split: if_splits sum.splits list.splits)
qed

lemma unreserved_not_surrogate:
  "unreserved c \<Longrightarrow> \<not> is_low_surrogate c \<and> \<not> is_high_surrogate c"
proof -
  assume "unreserved c"
  then have "unat c \<le> 126"
    unfolding unreserved_def word_le_nat_alt by (auto simp: word_unat_eq_iff)
  then show ?thesis
    unfolding is_low_surrogate_def is_high_surrogate_def word_le_nat_alt by simp
qed

lemma encodeURIComponent_well_formed:
  "well_formed s \<Longrightarrow> \<exists>r. encodeURIComponent s = Inr r"
proof (induction s rule: encodeURIComponent.induct)
  case 1
  then show ?case by simp
next
  case (2 c cs)
  show ?case
  proof (cases "unreserved c")
    case True
    with 2 unreserved_not_surrogate [of c] show ?thesis by auto
  next
    case False
    note nu = this
    show ?thesis
    proof (cases "is_high_surrogate c")
      case True
      with 2 nu show ?thesis by (cases cs) (auto split: if_splits)
    next
      case False
      with 2 nu show ?thesis by (auto split: if_splits)
    qed
  qed
qed

lemma encodeURIComponent_ill_formed:
  "\<not> well_formed s \<Longrightarrow> encodeURIComponent s = Inl URIError"
proof (induction s rule: encodeURIComponent.induct)
  case 1
  then show ?case by simp
next
  case (2 c cs)
  show ?case
  proof (cases "unreserved c")
    case True
    with 2 unreserved_not_surrogate [of c] show ?thesis by auto
  next
    case False
    note nu = this
    show ?thesis
    proof (cases "is_high_surrogate c")
      case True
      with 2 nu show ?thesis by (cases cs) (auto split: if_splits)
    next
      case False
      with 2 nu show ?thesis by (auto split: if_splits)
    qed
  qed
qed

subsection \<open>Evaluation of the built-ins on the example inputs\<close>

lemma trim_blank: "trim (lit ''  '') = []"
  by (simp add: trim_def lit_def is_white_def)

lemma trim_bob: "trim (lit '' bob '') = lit ''bob''"
  by (simp add: trim_def lit_def is_white_def)

lemma bob_no_at: "0x40 \<notin> set (lit ''bob'')"
  by (simp add: lit_def)

lemma trim_mail: "trim (lit '' b@x.org '') = lit ''b@x.org''"
  by (simp add: trim_def lit_def is_white_def)

lemma mail_at: "0x40 \<in> set (lit ''b@x.org'')"
  by (simp add: lit_def)

lemma encode_chess: "encodeURIComponent (lit ''Chess Club'') = Inr (lit ''Chess%20Club'')"
  by (simp add: lit_def unreserved_def is_low_surrogate_def is_high_surrogate_def escape_def
      utf8_def percent_def hex_digit_def)

lemma encode_mail: "encodeURIComponent (lit ''b@x.org'') = Inr (lit ''b%40x.org'')"
  by (simp add: lit_def unreserved_def is_low_surrogate_def is_high_surrogate_def escape_def
      utf8_def percent_def hex_digit_def)

subsection \<open>signUp: validation and answers without success\<close>

lemma signUp_valid:
  assumes "emailInput w = Some v" "trim v = email" "email \<noteq> []" "0x40 \<in> set email"
  shows "signUp rt a w =
     (case signUp_try rt a email w of
        (None, w1) \<Rightarrow> (None, w1)
      | (Some e, w1) \<Rightarrow>
          (None, alert (console_error w1 (lit ''Error signing up:'') e) signup_error_message))"
  using assms by (simp add: signUp_def Let_def includes_at)

lemma signUp_try_response:
  assumes "encodeURIComponent a = Inr name" "encodeURIComponent email = Inr mail"
    and "net w (length (requests w)) = Inr r"
  shows "signUp_try rt a email w =
     (let w1 = w\<lparr>requests := requests w @
                 [\<lparr>request_method = POST, url = signup_url name mail\<rparr>]\<rparr> in
      if ok r then
        (case response_json r of
           Inl e \<Rightarrow> (Some e, w1)
         | Inr result \<Rightarrow>
             (case subst rt (get_prop (Some result) (lit ''message'')) of
                Inl e \<Rightarrow> (Some e, w1)
              | Inr msg \<Rightarrow> (None, snd (loadActivities rt (alert w1 msg)))))
      else
        (case response_json r of
           Inl e \<Rightarrow> (Some e, w1)
         | Inr error \<Rightarrow>
             (case subst rt (get_prop (Some error) (lit ''detail'')) of
                Inl e \<Rightarrow> (Some e, w1)
              | Inr detail \<Rightarrow> (None, alert w1 (lit ''Error: '' @ detail)))))"
  using assms by (simp add: signUp_try_def fetch_def Let_def)

lemma signUp_try_offline:
  assumes "encodeURIComponent a = Inr name" "encodeURIComponent email = Inr mail"
    and "net w (length (requests w)) = Inl e"
  shows "signUp_try rt a email w =
     (Some e, w\<lparr>requests := requests w @
                  [\<lparr>request_method = POST, url = signup_url name mail\<rparr>]\<rparr>)"
  using assms by (simp add: signUp_try_def fetch_def)

lemma signUp_try_ill_formed:
  assumes "\<not> well_formed a \<or> \<not> well_formed email"
  shows "signUp_try rt a email w = (Some URIError, w)"
proof (cases "well_formed a")
  case False
  then show ?thesis by (simp add: signUp_try_def encodeURIComponent_ill_formed)
next
  case True
  then obtain name where "encodeURIComponent a = Inr name"
    using encodeURIComponent_well_formed by blast
  moreover from True assms have "encodeURIComponent email = Inl URIError"
    by (simp add: encodeURIComponent_ill_formed)
  ultimately show ?thesis by (simp add: signUp_try_def)
qed

text \<open>What \<open>signUp\<close> does with an answer that has no 2xx status.\<close>

lemma signUp_rejected:
  assumes "emailInput w = Some v" "trim v = email" "email \<noteq> []" "0x40 \<in> set email"
    and "encodeURIComponent a = Inr name" "encodeURIComponent email = Inr mail"
    and "net w (length (requests w)) = Inr r" "\<not> ok r"
  shows "signUp rt a w =
     (let w1 = w\<lparr>requests := requests w @
                 [\<lparr>request_method = POST, url = signup_url name mail\<rparr>]\<rparr> in
      case body r of
        None \<Rightarrow>
          (None, alert (console_error w1 (lit ''Error signing up:'') SyntaxError)
                   signup_error_message)
      | Some err \<Rightarrow>
          (case subst rt (get_prop (Some err) (lit ''detail'')) of
             Inl e \<Rightarrow>
               (None, alert (console_error w1 (lit ''Error signing up:'') e)
                        signup_error_message)
           | Inr detail \<Rightarrow> (None, alert w1 (lit ''Error: '' @ detail))))"
  using assms
  by (simp add: signUp_valid [of w v email] signUp_try_response [of a name email mail w r]
      response_json_def Let_def split: option.splits sum.splits)

text \<open>
  Claim C5. On a page with the input field, \<open>signUp\<close> checks the content of
  the field in order. When the field is empty
  after trimming, it shows the first alert and stops; otherwise, when the trimmed
  field has no \<open>@\<close>, it shows the second alert and stops. In both cases the page
  is unchanged apart from the alert, so no request is issued.
\<close>

theorem signUp_rejects_invalid_email:
  assumes "emailInput w = Some v"
  shows "(trim v = [] \<longrightarrow>
      signUp rt a w = (None, alert w (lit ''Please enter your email address'')))
   \<and> (trim v \<noteq> [] \<and> 0x40 \<notin> set (trim v) \<longrightarrow>
      signUp rt a w = (None, alert w (lit ''Please enter a valid email address'')))
   \<and> (trim v = [] \<or> 0x40 \<notin> set (trim v) \<longrightarrow>
      requests (snd (signUp rt a w)) = requests w)"
  using assms by (auto simp: signUp_def Let_def includes_at alert_def)

theorem signUp_rejects_invalid_email_witness:
  "emailInput (page (lit ''  '') offline) = Some (lit ''  '')
   \<and> trim (lit ''  '') = []
   \<and> signUp some_runtime (lit ''Chess Club'') (page (lit ''  '') offline) =
       (None, alert (page (lit ''  '') offline) (lit ''Please enter your email address''))
   \<and> emailInput (page (lit '' bob '') offline) = Some (lit '' bob '')
   \<and> trim (lit '' bob '') \<noteq> []
   \<and> 0x40 \<notin> set (trim (lit '' bob ''))
   \<and> signUp some_runtime (lit ''Chess Club'') (page (lit '' bob '') offline) =
       (None, alert (page (lit '' bob '') offline) (lit ''Please enter a valid email address''))
   \<and> requests (snd (signUp some_runtime (lit ''Chess Club'') (page (lit '' bob '') offline))) = []"
  using signUp_rejects_invalid_email
      [of "page (lit ''  '') offline" "lit ''  ''" some_runtime "lit ''Chess Club''"]
    signUp_rejects_invalid_email
      [of "page (lit '' bob '') offline" "lit '' bob ''" some_runtime "lit ''Chess Club''"]
  by (simp add: page_def trim_blank trim_bob bob_no_at alert_def)

text \<open>
  Claim C10. When the sign-up request is answered with a 2xx status and a body
  that is not JSON, \<open>signUp\<close> logs the parse error, shows the message
  \<open>Error signing up. Please try again later.\<close> and does nothing else: the only
  request issued is the POST, so the activity list is not reloaded.
\<close>

theorem signUp_non_json_success_body:
  assumes "emailInput w = Some v" "trim v = email" "email \<noteq> []" "0x40 \<in> set email"
    and "encodeURIComponent activityName = Inr name" "encodeURIComponent email = Inr mail"
    and "net w (length (requests w)) = Inr r" "ok r" "body r = None"
  shows "signUp rt activityName w =
     (None, alert (console_error
        (w\<lparr>requests := requests w @
             [\<lparr>request_method = POST,
               url = lit ''/activities/'' @ name @ lit ''/signup?email='' @ mail\<rparr>]\<rparr>)
        (lit ''Error signing up:'') SyntaxError)
        (lit ''Error signing up. Please try again later.''))"
  using assms
  by (simp add: signUp_valid [of w v email] signUp_try_response [of activityName name email mail w r]
      response_json_def Let_def signup_url_def signup_error_message_def)

theorem signUp_non_json_success_body_witness:
  "signUp some_runtime (lit ''Chess Club'') (page (lit '' b@x.org '') (answering 200 None)) =
     (None, alert (console_error
        ((page (lit '' b@x.org '') (answering 200 None))
           \<lparr>requests :=
              [\<lparr>request_method = POST,
                url = lit ''/activities/'' @ lit ''Chess%20Club'' @ lit ''/signup?email=''
                      @ lit ''b%40x.org''\<rparr>]\<rparr>)
        (lit ''Error signing up:'') SyntaxError)
        (lit ''Error signing up. Please try again later.''))"
  using signUp_non_json_success_body [of "page (lit '' b@x.org '') (answering 200 None)"
      "lit '' b@x.org ''" "lit ''b@x.org''" "lit ''Chess Club''" "lit ''Chess%20Club''"
      "lit ''b%40x.org''" "\<lparr>status = 200, body = None\<rparr>" some_runtime]
  by (simp add: page_def trim_mail mail_at encode_chess encode_mail answering_def ok_def)

text \<open>
  Claim C3, as stated: the message shown for a non-2xx answer equals the \<open>detail\<close>
  field. It does not: line 71 puts \<open>Error: \<close> in front of it. And an answer whose
  body is not JSON has no \<open>detail\<close>: the parse error is caught and the generic
  message is shown.
\<close>

theorem signUp_detail_verbatim_counterexample:
  "alerts (snd (signUp some_runtime (lit ''Chess Club'')
      (page (lit '' b@x.org '')
         (answering 400 (Some (Obj [(lit ''detail'', Str (lit ''Already signed up''))]))))))
     = [lit ''Error: Already signed up'']
   \<and> lit ''Error: Already signed up'' \<noteq> lit ''Already signed up''
   \<and> alerts (snd (signUp some_runtime (lit ''Chess Club'')
      (page (lit '' b@x.org '') (answering 500 None))))
     = [lit ''Error signing up. Please try again later.'']"
proof -
  let ?w = "page (lit '' b@x.org '')
         (answering 400 (Some (Obj [(lit ''detail'', Str (lit ''Already signed up''))])))"
  let ?u = "page (lit '' b@x.org '') (answering 500 None)"
  have "signUp some_runtime (lit ''Chess Club'') ?w =
     (None, alert (?w\<lparr>requests := requests ?w @
                [\<lparr>request_method = POST,
                  url = signup_url (lit ''Chess%20Club'') (lit ''b%40x.org'')\<rparr>]\<rparr>)
              (lit ''Error: '' @ lit ''Already signed up''))"
    using signUp_rejected [of ?w "lit '' b@x.org ''" "lit ''b@x.org''" "lit ''Chess Club''"
        "lit ''Chess%20Club''" "lit ''b%40x.org''"
        "\<lparr>status = 400,
           body = Some (Obj [(lit ''detail'', Str (lit ''Already signed up''))])\<rparr>" some_runtime]
    by (simp add: page_def trim_mail mail_at encode_chess encode_mail answering_def ok_def
        subst_def get_prop_def value_to_string_def)
  then have a: "alerts (snd (signUp some_runtime (lit ''Chess Club'') ?w)) =
      [lit ''Error: '' @ lit ''Already signed up'']"
    by (simp add: alert_def page_def)
  have b: "lit ''Error: '' @ lit ''Already signed up'' = lit ''Error: Already signed up''"
    by (simp add: lit_def)
  have "signUp some_runtime (lit ''Chess Club'') ?u =
     (None, alert (console_error (?u\<lparr>requests := requests ?u @
                [\<lparr>request_method = POST,
                  url = signup_url (lit ''Chess%20Club'') (lit ''b%40x.org'')\<rparr>]\<rparr>)
              (lit ''Error signing up:'') SyntaxError) signup_error_message)"
    using signUp_rejected [of ?u "lit '' b@x.org ''" "lit ''b@x.org''" "lit ''Chess Club''"
        "lit ''Chess%20Club''" "lit ''b%40x.org''" "\<lparr>status = 500, body = None\<rparr>"
        some_runtime]
    by (simp add: page_def trim_mail mail_at encode_chess encode_mail answering_def ok_def)
  then have c: "alerts (snd (signUp some_runtime (lit ''Chess Club'') ?u)) =
      [lit ''Error signing up. Please try again later.'']"
    by (simp add: alert_def console_error_def page_def signup_error_message_def)
  from a b c show ?thesis by simp
qed

text \<open>
  Claim C3, amended. For every non-2xx answer to the sign-up request, \<open>signUp\<close>
  issues no request but the POST and leaves the container as it is, so the
  activity list is not reloaded. When the body of the answer is JSON whose
  \<open>detail\<close> can be read and converted to a string, the message shown is \<open>Error: \<close>
  followed by that string; for a \<open>detail\<close> that is a string this is the \<open>detail\<close>
  verbatim.
\<close>

theorem signUp_rejected_shows_detail:
  assumes "emailInput w = Some v" "trim v = email" "email \<noteq> []" "0x40 \<in> set email"
    and "encodeURIComponent activityName = Inr name" "encodeURIComponent email = Inr mail"
    and "net w (length (requests w)) = Inr r" "\<not> ok r"
  shows "requests (snd (signUp rt activityName w)) =
       requests w @ [\<lparr>request_method = POST,
         url = lit ''/activities/'' @ name @ lit ''/signup?email='' @ mail\<rparr>]
     \<and> activitiesContainer (snd (signUp rt activityName w)) = activitiesContainer w
     \<and> (\<forall>err s. body r = Some err
            \<and> subst rt (get_prop (Some err) (lit ''detail'')) = Inr s \<longrightarrow>
          alerts (snd (signUp rt activityName w)) = alerts w @ [lit ''Error: '' @ s])
     \<and> (\<forall>kvs detail. body r = Some (Obj kvs)
            \<and> map_of kvs (lit ''detail'') = Some (Str detail) \<longrightarrow>
          alerts (snd (signUp rt activityName w)) = alerts w @ [lit ''Error: '' @ detail])"
  using signUp_rejected [OF assms, of rt]
  by (auto simp: Let_def alert_def console_error_def signup_url_def subst_def get_prop_def
      value_to_string_def split: option.splits sum.splits)

theorem signUp_rejected_shows_detail_witness:
  "requests (snd (signUp some_runtime (lit ''Chess Club'')
      (page (lit '' b@x.org '')
         (answering 400 (Some (Obj [(lit ''detail'', Str (lit ''Already signed up''))]))))))
     = [\<lparr>request_method = POST,
         url = lit ''/activities/'' @ lit ''Chess%20Club'' @ lit ''/signup?email=''
               @ lit ''b%40x.org''\<rparr>]
   \<and> activitiesContainer (snd (signUp some_runtime (lit ''Chess Club'')
      (page (lit '' b@x.org '')
         (answering 400 (Some (Obj [(lit ''detail'', Str (lit ''Already signed up''))]))))))
     = Some (Node (lit ''div'') [] [] [])
   \<and> alerts (snd (signUp some_runtime (lit ''Chess Club'')
      (page (lit '' b@x.org '')
         (answering 400 (Some (Obj [(lit ''detail'', Str (lit ''Already signed up''))]))))))
     = [lit ''Error: '' @ lit ''Already signed up'']"
  using signUp_rejected_shows_detail [of "page (lit '' b@x.org '')
         (answering 400 (Some (Obj [(lit ''detail'', Str (lit ''Already signed up''))])))"
      "lit '' b@x.org ''" "lit ''b@x.org''" "lit ''Chess Club''" "lit ''Chess%20Club''"
      "lit ''b%40x.org''"
      "\<lparr>status = 400, body = Some (Obj [(lit ''detail'', Str (lit ''Already signed up''))])\<rparr>"
      some_runtime]
  by (simp add: page_def trim_mail mail_at encode_chess encode_mail answering_def ok_def)

subsection \<open>Rendering one Activity record\<close>

lemma is_str_list: "list_all is_str ps \<Longrightarrow> \<exists>emails. ps = map Str emails"
proof (induction ps)
  case Nil
  then show ?case by simp
next
  case (Cons p ps)
  then obtain emails where "ps = map Str emails" by auto
  moreover from Cons.prems obtain e where "p = Str e" by (cases p) auto
  ultimately have "p # ps = map Str (e # emails)" by simp
  then show ?case by (rule exI [of _ "e # emails"])
qed

lemma is_activity_fields:
  assumes "is_activity v"
  shows "\<exists>kvs d s m emails. v = Obj kvs
    \<and> map_of kvs (lit ''description'') = Some (Str d)
    \<and> map_of kvs (lit ''schedule'') = Some (Str s)
    \<and> map_of kvs (lit ''max_participants'') = Some (Num m)
    \<and> map_of kvs (lit ''participants'') = Some (Arr (map Str emails))
    \<and> (map_of kvs (lit ''current_participants'') = None
       \<or> (\<exists>n. map_of kvs (lit ''current_participants'') = Some (Num n)))"
proof -
  from assms obtain kvs where v: "v = Obj kvs"
    by (cases v) (simp_all add: is_activity_def)
  from assms v obtain d where d: "map_of kvs (lit ''description'') = Some (Str d)"
    by (auto simp: is_activity_def split: option.splits json.splits)
  from assms v obtain s where s: "map_of kvs (lit ''schedule'') = Some (Str s)"
    by (auto simp: is_activity_def split: option.splits json.splits)
  from assms v obtain m where m: "map_of kvs (lit ''max_participants'') = Some (Num m)"
    by (auto simp: is_activity_def split: option.splits json.splits)
  from assms v obtain ps where ps: "map_of kvs (lit ''participants'') = Some (Arr ps)"
      "list_all is_str ps"
    by (auto simp: is_activity_def split: option.splits json.splits)
  from ps(2) obtain emails where e: "ps = map Str emails"
    using is_str_list by blast
  from assms v have c: "map_of kvs (lit ''current_participants'') = None
       \<or> (\<exists>n. map_of kvs (lit ''current_participants'') = Some (Num n))"
    by (auto simp: is_activity_def split: option.splits json.splits)
  from v d s m ps(1) e c show ?thesis by blast
qed

lemma li_items_strings: "li_items rt (map Str emails) = Inr (map li emails)"
  by (induction emails) (simp_all add: li_def)

lemma participantsList_strings:
  assumes "map_of kvs (lit ''participants'') = Some (Arr (map Str emails))"
  shows "participantsList rt (Obj kvs) =
     Inr (if emails = [] then no_participants else participants_ul (map li emails))"
  using assms
  by (simp add: participantsList_def get_prop_def truthy_def greater_than_zero_def
      li_items_strings)

lemma participantsList_absent:
  assumes "map_of kvs (lit ''participants'') = None"
  shows "participantsList rt (Obj kvs) = Inr no_participants"
  using assms by (simp add: participantsList_def get_prop_def truthy_def)

lemma capacity_Obj:
  "capacity (Obj kvs) =
     (if truthy (map_of kvs (lit ''current_participants''))
      then Inr (map_of kvs (lit ''current_participants''))
      else get_prop (map_of kvs (lit ''participants'')) (lit ''length''))"
  by (simp add: capacity_def get_prop_def)

lemma card_innerHTML_activity:
  assumes "map_of kvs (lit ''description'') = Some (Str d)"
    "map_of kvs (lit ''schedule'') = Some (Str s)"
    "map_of kvs (lit ''max_participants'') = Some (Num m)"
    "map_of kvs (lit ''participants'') = Some (Arr (map Str emails))"
    "map_of kvs (lit ''current_participants'') = None
       \<or> (\<exists>n. map_of kvs (lit ''current_participants'') = Some (Num n))"
  shows "card_innerHTML rt name (Obj kvs) =
     Inr (card_markup name d s
            (number_to_string rt
               (case map_of kvs (lit ''current_participants'') of
                  Some (Num k) \<Rightarrow> if k \<noteq> 0 then k else int (length emails)
                | _ \<Rightarrow> int (length emails)))
            (number_to_string rt m)
            (if emails = [] then no_participants else participants_ul (map li emails)))"
  using assms
  by (auto simp: card_innerHTML_def participantsList_strings capacity_Obj subst_def
      get_prop_def value_to_string_def truthy_def)

lemma card_markup_head: "starts_with (card_markup name d s c m pl) (card_head name d s)"
proof -
  have "\<exists>rest. card_markup name d s c m pl = card_head name d s @ rest"
    by (simp add: card_markup_def card_head_def)
  then show ?thesis using starts_with_append by auto
qed

lemma activity_card_simps:
  "tagName (activity_card html) = lit ''div''"
  "className (activity_card html) = lit ''activity-card''"
  "innerHTML (activity_card html) = html"
  "appended (activity_card html) = []"
  by (simp_all add: activity_card_def set_innerHTML_def set_className_def createElement_def)

lemma activity_shown:
  assumes "is_activity details"
  shows "\<exists>html. card_innerHTML rt name details = Inr html
     \<and> shows_activity (name, details) (activity_card html)"
proof -
  from is_activity_fields [OF assms] obtain kvs d s m emails where
    f: "details = Obj kvs"
    "map_of kvs (lit ''description'') = Some (Str d)"
    "map_of kvs (lit ''schedule'') = Some (Str s)"
    "map_of kvs (lit ''max_participants'') = Some (Num m)"
    "map_of kvs (lit ''participants'') = Some (Arr (map Str emails))"
    "map_of kvs (lit ''current_participants'') = None
       \<or> (\<exists>n. map_of kvs (lit ''current_participants'') = Some (Num n))"
    by blast
  from card_innerHTML_activity [OF f(2-6), of rt name] f(1)
  obtain c mx pl where h: "card_innerHTML rt name details = Inr (card_markup name d s c mx pl)"
    by blast
  have "shows_activity (name, details) (activity_card (card_markup name d s c mx pl))"
    using f by (simp add: shows_activity_def activity_card_simps card_markup_head)
  with h show ?thesis by blast
qed

subsection \<open>The rendering loop\<close>

lemma displayActivities_loop_activities:
  assumes "\<forall>(name, details) \<in> set es. is_activity details"
    and "activitiesContainer w = Some c"
  shows "\<exists>cards. displayActivities_loop rt es w =
       (None, w\<lparr>activitiesContainer :=
          Some (Node (tagName c) (className c) (innerHTML c) (appended c @ cards))\<rparr>)
     \<and> list_all2 shows_activity es cards"
  using assms
proof (induction es arbitrary: w c)
  case Nil
  then show ?case by (cases c) simp
next
  case (Cons entry es)
  obtain name details where entry: "entry = (name, details)" by (cases entry)
  with Cons.prems have "is_activity details" by simp
  from activity_shown [OF this, of rt name] obtain html where
    html: "card_innerHTML rt name details = Inr html"
      "shows_activity (name, details) (activity_card html)" by blast
  let ?w = "w\<lparr>activitiesContainer := Some (appendChild c (activity_card html))\<rparr>"
  from Cons.prems have "\<forall>(name, details) \<in> set es. is_activity details" by simp
  moreover have "activitiesContainer ?w = Some (appendChild c (activity_card html))" by simp
  ultimately obtain cards where
    cards: "displayActivities_loop rt es ?w =
       (None, ?w\<lparr>activitiesContainer :=
          Some (Node (tagName (appendChild c (activity_card html)))
            (className (appendChild c (activity_card html)))
            (innerHTML (appendChild c (activity_card html)))
            (appended (appendChild c (activity_card html)) @ cards))\<rparr>)"
      "list_all2 shows_activity es cards"
    using Cons.IH by blast
  have "displayActivities_loop rt (entry # es) w =
       (None, w\<lparr>activitiesContainer :=
          Some (Node (tagName c) (className c) (innerHTML c)
            (appended c @ activity_card html # cards))\<rparr>)"
    using entry html(1) cards(1) Cons.prems(2) by (simp add: appendChild_def)
  moreover have "list_all2 shows_activity (entry # es) (activity_card html # cards)"
    using entry html(2) cards(2) by simp
  ultimately show ?case by blast
qed

lemma displayActivities_activities:
  assumes "\<forall>(name, details) \<in> set entries. is_activity details"
    and "activitiesContainer w = Some c"
  shows "\<exists>cards. displayActivities rt (Obj entries) w =
       (None, w\<lparr>activitiesContainer := Some (Node (tagName c) (className c) [] cards)\<rparr>)
     \<and> length cards = length entries
     \<and> list_all2 shows_activity entries cards"
proof -
  let ?w = "w\<lparr>activitiesContainer := Some (set_innerHTML c [])\<rparr>"
  have "activitiesContainer ?w = Some (set_innerHTML c [])" by simp
  from displayActivities_loop_activities [OF assms(1) this, of rt] obtain cards where
    cards: "displayActivities_loop rt entries ?w =
       (None, ?w\<lparr>activitiesContainer :=
          Some (Node (tagName (set_innerHTML c [])) (className (set_innerHTML c []))
            (innerHTML (set_innerHTML c [])) (appended (set_innerHTML c []) @ cards))\<rparr>)"
      "list_all2 shows_activity entries cards" by blast
  have "displayActivities rt (Obj entries) w =
       (None, w\<lparr>activitiesContainer := Some (Node (tagName c) (className c) [] cards)\<rparr>)"
    using cards(1) assms(2)
    by (simp add: displayActivities_def object_entries_def set_innerHTML_def)
  moreover from cards(2) have "length cards = length entries"
    by (simp add: list_all2_lengthD)
  ultimately show ?thesis using cards(2) by blast
qed

subsection \<open>Exceptions while rendering\<close>

lemma to_string_TypeError:
  "to_string rt j = Inl e \<Longrightarrow> e = TypeError"
  "elements_to_strings rt js = Inl e \<Longrightarrow> e = TypeError"
  by (induction rt j and rt js rule: to_string_elements_to_strings.induct)
     (auto split: if_splits sum.splits)

lemma value_to_string_TypeError: "value_to_string rt v = Inl e \<Longrightarrow> e = TypeError"
  by (auto simp: value_to_string_def dest: to_string_TypeError split: option.splits)

lemma get_prop_TypeError: "get_prop v k = Inl e \<Longrightarrow> e = TypeError"
  by (auto simp: get_prop_def split: option.splits json.splits)

lemma subst_TypeError: "r = Inl e \<longrightarrow> e = TypeError \<Longrightarrow> subst rt r = Inl e \<Longrightarrow> e = TypeError"
  by (auto simp: subst_def dest: value_to_string_TypeError split: sum.splits)

lemma greater_than_zero_TypeError: "greater_than_zero rt v = Inl e \<Longrightarrow> e = TypeError"
  by (auto simp: greater_than_zero_def simp del: to_string.simps
      dest: to_string_TypeError split: option.splits json.splits sum.splits)

lemma li_items_TypeError: "li_items rt js = Inl e \<Longrightarrow> e = TypeError"
  by (induction js) (auto dest: to_string_TypeError split: sum.splits)

lemma participantsList_TypeError: "participantsList rt details = Inl e \<Longrightarrow> e = TypeError"
  by (auto simp: participantsList_def
      dest: get_prop_TypeError greater_than_zero_TypeError li_items_TypeError
      split: sum.splits if_splits bool.splits option.splits json.splits)

lemma capacity_TypeError: "capacity details = Inl e \<Longrightarrow> e = TypeError"
  by (auto simp: capacity_def dest: get_prop_TypeError split: sum.splits if_splits)

lemma card_innerHTML_TypeError: "card_innerHTML rt name details = Inl e \<Longrightarrow> e = TypeError"
  unfolding card_innerHTML_def
  by (auto dest: participantsList_TypeError get_prop_TypeError capacity_TypeError
      dest!: subst_TypeError [rotated] split: sum.splits)

lemma displayActivities_loop_throws:
  assumes "(name, details) \<in> set es" "card_innerHTML rt name details = Inl e"
  shows "fst (displayActivities_loop rt es w) = Some TypeError"
  using assms
proof (induction es arbitrary: w)
  case Nil
  then show ?case by simp
next
  case (Cons entry es)
  obtain n d where entry: "entry = (n, d)" by (cases entry)
  show ?case
  proof (cases "card_innerHTML rt n d")
    case (Inl e')
    then have "e' = TypeError" by (rule card_innerHTML_TypeError)
    with Inl entry show ?thesis by simp
  next
    case (Inr html)
    with Cons.prems entry have "(name, details) \<in> set es" by auto
    from Cons.IH [OF this Cons.prems(2)] Inr entry show ?thesis
      by (simp split: option.splits)
  qed
qed

subsection \<open>The example activities\<close>


lemma chess_card:
  "card_innerHTML rt (lit ''Chess Club'') (Obj chess_club) =
     Inr (card_markup (lit ''Chess Club'') (lit ''Learn strategies'') (lit ''Mon'')
            (number_to_string rt 1) (number_to_string rt 10)
            (participants_ul [li (lit ''a@x.com'')]))"
  using card_innerHTML_activity [of chess_club "lit ''Learn strategies''" "lit ''Mon''" 10
      "[lit ''a@x.com'']" rt "lit ''Chess Club''"]
  by (simp add: chess_club_def)

lemma example_activities: "is_activity (Obj chess_club)" "is_activity (Obj art_club)"
  by (simp_all add: is_activity_def chess_club_def art_club_def)

subsection \<open>displayActivities: cards, capacity line, placeholder, missing participants\<close>

text \<open>
  Claim C6. Given a page with a container and a mapping whose \<open>N\<close> values are
  Activity records, \<open>displayActivities\<close> returns normally, whatever the container held
  before: the container then has no markup of its own and exactly \<open>N\<close> appended
  elements, the \<open>i\<close>-th being a card that starts with the name, the description and
  the schedule of the \<open>i\<close>-th entry.
\<close>

theorem displayActivities_renders_every_activity:
  assumes "\<forall>(name, details) \<in> set entries. is_activity details"
    and "activitiesContainer w = Some c"
  shows "\<exists>cards. displayActivities rt (Obj entries) w =
       (None, w\<lparr>activitiesContainer := Some (Node (tagName c) (className c) [] cards)\<rparr>)
     \<and> length cards = length entries
     \<and> list_all2 shows_activity entries cards"
  using assms by (rule displayActivities_activities)

theorem displayActivities_renders_every_activity_witness:
  "is_activity (Obj chess_club) \<and> is_activity (Obj art_club)
   \<and> (\<exists>cards. displayActivities some_runtime
          (Obj [(lit ''Chess Club'', Obj chess_club), (lit ''Art Club'', Obj art_club)])
          ((page [] offline)
             \<lparr>activitiesContainer := Some (Node (lit ''div'') [] (lit ''<p>old</p>'') [])\<rparr>) =
        (None, (page [] offline)\<lparr>activitiesContainer := Some (Node (lit ''div'') [] [] cards)\<rparr>)
      \<and> length cards = 2
      \<and> list_all2 shows_activity
           [(lit ''Chess Club'', Obj chess_club), (lit ''Art Club'', Obj art_club)] cards)"
  using displayActivities_renders_every_activity
    [of "[(lit ''Chess Club'', Obj chess_club), (lit ''Art Club'', Obj art_club)]"
      "(page [] offline)
         \<lparr>activitiesContainer := Some (Node (lit ''div'') [] (lit ''<p>old</p>'') [])\<rparr>"
      "Node (lit ''div'') [] (lit ''<p>old</p>'') []" some_runtime]
  by (simp add: example_activities page_def numeral_2_eq_2)






text \<open>
  Claim C9. When a record of the mapping has no \<open>participants\<close> field and its
  \<open>current_participants\<close> is absent, 0 or otherwise falsy, the participants section
  alone would be the placeholder, but the capacity expression reads \<open>length\<close> of
  \<open>undefined\<close> and \<open>displayActivities\<close> ends with a \<open>TypeError\<close>. So
  \<open>displayActivities\<close> returns normally only when every record has a participants
  value or a truthy \<open>current_participants\<close>.
\<close>

theorem displayActivities_throws_without_participants:
  assumes "(name, Obj kvs) \<in> set entries"
    and "map_of kvs (lit ''participants'') = None"
    and "\<not> truthy (map_of kvs (lit ''current_participants''))"
  shows "participantsList rt (Obj kvs) = Inr no_participants
     \<and> capacity (Obj kvs) = Inl TypeError
     \<and> fst (displayActivities rt (Obj entries) w) = Some TypeError"
proof -
  have p: "participantsList rt (Obj kvs) = Inr no_participants"
    using assms(2) by (rule participantsList_absent)
  have c: "capacity (Obj kvs) = Inl TypeError"
    using assms(2,3) by (simp add: capacity_Obj get_prop_def)
  then have "\<exists>e. card_innerHTML rt name (Obj kvs) = Inl e"
    by (simp add: card_innerHTML_def subst_def split: sum.splits)
  then obtain e where "card_innerHTML rt name (Obj kvs) = Inl e" by blast
  from displayActivities_loop_throws [OF assms(1) this]
  have "fst (displayActivities rt (Obj entries) w) = Some TypeError"
    by (simp add: displayActivities_def object_entries_def split: option.splits)
  with p c show ?thesis by blast
qed

theorem displayActivities_throws_without_participants_witness:
  "(lit ''Drama Club'', Obj drama_club)
      \<in> set [(lit ''Chess Club'', Obj chess_club), (lit ''Drama Club'', Obj drama_club)]
   \<and> map_of drama_club (lit ''participants'') = None
   \<and> \<not> truthy (map_of drama_club (lit ''current_participants''))
   \<and> participantsList some_runtime (Obj drama_club) = Inr no_participants
   \<and> capacity (Obj drama_club) = Inl TypeError
   \<and> fst (displayActivities some_runtime
        (Obj [(lit ''Chess Club'', Obj chess_club), (lit ''Drama Club'', Obj drama_club)])
        (page [] offline)) = Some TypeError"
proof -
  have h: "(lit ''Drama Club'', Obj drama_club)
      \<in> set [(lit ''Chess Club'', Obj chess_club), (lit ''Drama Club'', Obj drama_club)]"
    "map_of drama_club (lit ''participants'') = None"
    "\<not> truthy (map_of drama_club (lit ''current_participants''))"
    by (simp_all add: drama_club_def truthy_def)
  from displayActivities_throws_without_participants
    [OF h, of some_runtime "page [] offline"] h
  show ?thesis by blast
qed

subsection \<open>loadActivities and the status of the answer\<close>

text \<open>
  Claim C2 fails on the code. \<open>loadActivities\<close> never reads the status: an answer
  with status 500 whose body is a mapping of activities is rendered as cards, and
  the container does not get the error message.
\<close>

theorem loadActivities_renders_error_response:
  "\<not> ok \<lparr>status = 500, body = Some (Obj [(lit ''Chess Club'', Obj chess_club)])\<rparr>
   \<and> activitiesContainer (snd (loadActivities some_runtime
        (page [] (answering 500 (Some (Obj [(lit ''Chess Club'', Obj chess_club)])))))) =
      Some (Node (lit ''div'') [] []
        [activity_card (card_markup (lit ''Chess Club'') (lit ''Learn strategies'') (lit ''Mon'')
            (number_to_string some_runtime 1) (number_to_string some_runtime 10)
            (participants_ul [li (lit ''a@x.com'')]))])"
  by (simp add: ok_def loadActivities_def loadActivities_try_def fetch_def page_def
      answering_def response_json_def displayActivities_def object_entries_def chess_card
      set_innerHTML_def appendChild_def)

subsection \<open>More evaluations on example inputs\<close>

lemma trim_lone: "trim (lit ''b@'' @ [0xD800]) = lit ''b@'' @ [0xD800]"
  by (simp add: trim_def lit_def is_white_def)

lemma lone_at: "0x40 \<in> set (lit ''b@'' @ [0xD800])"
  by (simp add: lit_def)

lemma lone_ill_formed: "\<not> well_formed (lit ''b@'' @ [0xD800])"
  by (simp add: lit_def is_low_surrogate_def is_high_surrogate_def)

lemma examples_well_formed: "well_formed (lit ''Chess Club'')" "well_formed (lit ''b@x.org'')"
  by (simp_all add: lit_def is_low_surrogate_def is_high_surrogate_def)

subsection \<open>signUp: the request, the reload, and exceptions\<close>

lemma signUp_try_requests:
  assumes "encodeURIComponent a = Inr name" "encodeURIComponent email = Inr mail"
  shows "requests (snd (signUp_try rt a email w)) =
       requests w @ [\<lparr>request_method = POST, url = signup_url name mail\<rparr>]
     \<or> requests (snd (signUp_try rt a email w)) =
       requests w @ [\<lparr>request_method = POST, url = signup_url name mail\<rparr>,
                     \<lparr>request_method = GET, url = lit ''/activities''\<rparr>]"
proof (cases "net w (length (requests w))")
  case (Inl e)
  from signUp_try_offline [OF assms Inl, of rt] show ?thesis by simp
next
  case (Inr r)
  from signUp_try_response [OF assms Inr, of rt] show ?thesis
    by (auto simp: Let_def loadActivities_frame alert_def split: sum.splits)
qed

lemma signUp_requests:
  assumes "emailInput w = Some v" "trim v = email" "email \<noteq> []" "0x40 \<in> set email"
  shows "requests (snd (signUp rt a w)) = requests (snd (signUp_try rt a email w))"
  using signUp_valid [OF assms, of rt a]
  by (auto simp: alert_def console_error_def split: prod.splits option.splits)

lemma signUp_accepted:
  assumes "emailInput w = Some v" "trim v = email" "email \<noteq> []" "0x40 \<in> set email"
    and "encodeURIComponent a = Inr name" "encodeURIComponent email = Inr mail"
    and "net w (length (requests w)) = Inr r" "ok r" "body r = Some j"
    and "subst rt (get_prop (Some j) (lit ''message'')) = Inr s"
  shows "signUp rt a w =
     (None, snd (loadActivities rt
        (alert (w\<lparr>requests := requests w @
                  [\<lparr>request_method = POST, url = signup_url name mail\<rparr>]\<rparr>) s)))"
  using assms
  by (simp add: signUp_valid [of w v email] signUp_try_response [of a name email mail w r]
      response_json_def Let_def)

text \<open>
  Claim C4, as stated: every email that is not empty after trimming and contains
  \<open>@\<close> leads to one POST, and a 2xx JSON answer leads to the message and a reload.
  Neither holds throughout. When the email has an unpaired surrogate,
  \<open>encodeURIComponent\<close> throws inside the \<open>try\<close> block: the generic message is shown
  and no request is issued. When the 2xx answer has the JSON body \<open>null\<close>, reading
  \<open>message\<close> throws: the generic message is shown and nothing is reloaded.
\<close>

theorem signUp_unpaired_surrogate_counterexample:
  "trim (lit ''b@'' @ [0xD800]) \<noteq> []
   \<and> 0x40 \<in> set (trim (lit ''b@'' @ [0xD800]))
   \<and> signUp some_runtime (lit ''Chess Club'') (page (lit ''b@'' @ [0xD800]) (answering 200 None)) =
       (None, alert (console_error (page (lit ''b@'' @ [0xD800]) (answering 200 None))
                       (lit ''Error signing up:'') URIError)
                (lit ''Error signing up. Please try again later.''))
   \<and> requests (snd (signUp some_runtime (lit ''Chess Club'')
        (page (lit ''b@'' @ [0xD800]) (answering 200 None)))) = []
   \<and> ok \<lparr>status = 200, body = Some Null\<rparr>
   \<and> requests (snd (signUp some_runtime (lit ''Chess Club'')
        (page (lit '' b@x.org '') (answering 200 (Some Null))))) =
       [\<lparr>request_method = POST,
         url = lit ''/activities/'' @ lit ''Chess%20Club'' @ lit ''/signup?email=''
               @ lit ''b%40x.org''\<rparr>]
   \<and> alerts (snd (signUp some_runtime (lit ''Chess Club'')
        (page (lit '' b@x.org '') (answering 200 (Some Null))))) =
       [lit ''Error signing up. Please try again later.'']"
proof -
  let ?w = "page (lit ''b@'' @ [0xD800]) (answering 200 None)"
  let ?u = "page (lit '' b@x.org '') (answering 200 (Some Null))"
  have e: "emailInput ?w = Some (lit ''b@'' @ [0xD800])" by (simp add: page_def)
  have n: "lit ''b@'' @ [0xD800] \<noteq> []" by simp
  have a: "signUp some_runtime (lit ''Chess Club'') ?w =
       (None, alert (console_error ?w (lit ''Error signing up:'') URIError)
                (lit ''Error signing up. Please try again later.''))"
    using signUp_valid [OF e trim_lone n lone_at, of some_runtime "lit ''Chess Club''"]
      signUp_try_ill_formed [of "lit ''Chess Club''" "lit ''b@'' @ [0xD800]" some_runtime ?w]
    by (simp add: lone_ill_formed signup_error_message_def)
  have b: "requests (alert (console_error ?w (lit ''Error signing up:'') URIError)
      (lit ''Error signing up. Please try again later.'')) = []"
    by (simp add: alert_def console_error_def page_def)
  have "signUp_try some_runtime (lit ''Chess Club'') (lit ''b@x.org'') ?u =
      (Some TypeError, ?u\<lparr>requests := requests ?u @
         [\<lparr>request_method = POST,
           url = signup_url (lit ''Chess%20Club'') (lit ''b%40x.org'')\<rparr>]\<rparr>)"
    using signUp_try_response [of "lit ''Chess Club''" "lit ''Chess%20Club''" "lit ''b@x.org''"
        "lit ''b%40x.org''" ?u "\<lparr>status = 200, body = Some Null\<rparr>" some_runtime]
    by (simp add: encode_chess encode_mail page_def answering_def ok_def response_json_def
        subst_def get_prop_def)
  then have "signUp some_runtime (lit ''Chess Club'') ?u =
      (None, alert (console_error (?u\<lparr>requests := requests ?u @
         [\<lparr>request_method = POST,
           url = signup_url (lit ''Chess%20Club'') (lit ''b%40x.org'')\<rparr>]\<rparr>)
         (lit ''Error signing up:'') TypeError) signup_error_message)"
    using signUp_valid [of ?u "lit '' b@x.org ''" "lit ''b@x.org''" some_runtime
        "lit ''Chess Club''"]
    by (simp add: page_def trim_mail mail_at)
  then have c: "requests (snd (signUp some_runtime (lit ''Chess Club'') ?u)) =
       [\<lparr>request_method = POST,
         url = lit ''/activities/'' @ lit ''Chess%20Club'' @ lit ''/signup?email=''
               @ lit ''b%40x.org''\<rparr>]"
    "alerts (snd (signUp some_runtime (lit ''Chess Club'') ?u)) =
       [lit ''Error signing up. Please try again later.'']"
    by (simp_all add: alert_def console_error_def page_def signup_url_def
        signup_error_message_def)
  have d: "ok \<lparr>status = 200, body = Some Null\<rparr>" by (simp add: ok_def)
  have t1: "trim (lit ''b@'' @ [0xD800]) \<noteq> []"
    unfolding trim_lone by (rule n)
  have t2: "0x40 \<in> set (trim (lit ''b@'' @ [0xD800]))"
    unfolding trim_lone by (rule lone_at)
  have b': "requests (snd (signUp some_runtime (lit ''Chess Club'') ?w)) = []"
    using a b by simp
  show ?thesis using t1 t2 a b' d c by (intro conjI)
qed

text \<open>
  Claim C4, amended. When the activity name and the trimmed email have no
  unpaired surrogate and the email is not empty and contains \<open>@\<close>, \<open>signUp\<close> calls
  \<open>fetch\<close> exactly once with the method POST, whatever the answer, and the URL
  string is \<open>/activities/NAME/signup?email=MAIL\<close>, where \<open>NAME\<close> and \<open>MAIL\<close> are the
  percent-encodings of the name and the email (unreserved characters and percent
  signs only); the only other request it may issue is the reload. When the answer
  has a 2xx status and a JSON body whose \<open>message\<close> can be read and converted to a
  string, as for an object with a string \<open>message\<close>, \<open>signUp\<close> shows that message
  and reloads the activity list exactly once.
\<close>

theorem signUp_success:
  assumes "emailInput w = Some v" "trim v = email" "email \<noteq> []" "0x40 \<in> set email"
    and "well_formed activityName" "well_formed email"
  shows "\<exists>name mail. encodeURIComponent activityName = Inr name
      \<and> encodeURIComponent email = Inr mail
      \<and> list_all uri_char name \<and> list_all uri_char mail
      \<and> (requests (snd (signUp rt activityName w)) =
            requests w @ [\<lparr>request_method = POST,
              url = lit ''/activities/'' @ name @ lit ''/signup?email='' @ mail\<rparr>]
          \<or> requests (snd (signUp rt activityName w)) =
            requests w @ [\<lparr>request_method = POST,
              url = lit ''/activities/'' @ name @ lit ''/signup?email='' @ mail\<rparr>,
              \<lparr>request_method = GET, url = lit ''/activities''\<rparr>])
      \<and> (\<forall>r j s. net w (length (requests w)) = Inr r \<and> ok r \<and> body r = Some j
             \<and> subst rt (get_prop (Some j) (lit ''message'')) = Inr s \<longrightarrow>
           fst (signUp rt activityName w) = None
           \<and> requests (snd (signUp rt activityName w)) =
               requests w @ [\<lparr>request_method = POST,
                 url = lit ''/activities/'' @ name @ lit ''/signup?email='' @ mail\<rparr>,
                 \<lparr>request_method = GET, url = lit ''/activities''\<rparr>]
           \<and> alerts (snd (signUp rt activityName w)) = alerts w @ [s])
      \<and> (\<forall>r kvs message. net w (length (requests w)) = Inr r \<and> ok r
             \<and> body r = Some (Obj kvs)
             \<and> map_of kvs (lit ''message'') = Some (Str message) \<longrightarrow>
           requests (snd (signUp rt activityName w)) =
               requests w @ [\<lparr>request_method = POST,
                 url = lit ''/activities/'' @ name @ lit ''/signup?email='' @ mail\<rparr>,
                 \<lparr>request_method = GET, url = lit ''/activities''\<rparr>]
           \<and> alerts (snd (signUp rt activityName w)) = alerts w @ [message])"
proof -
  obtain name where name: "encodeURIComponent activityName = Inr name"
    using assms(5) encodeURIComponent_well_formed by blast
  obtain mail where mail: "encodeURIComponent email = Inr mail"
    using assms(6) encodeURIComponent_well_formed by blast
  let ?P = "\<lparr>request_method = POST,
              url = lit ''/activities/'' @ name @ lit ''/signup?email='' @ mail\<rparr>"
  let ?G = "\<lparr>request_method = GET, url = lit ''/activities''\<rparr>"
  let ?S = "signUp rt activityName w"
  have safe: "list_all uri_char name" "list_all uri_char mail"
    using name mail encodeURIComponent_safe by blast+
  have one: "requests (snd ?S) = requests w @ [?P]
      \<or> requests (snd ?S) = requests w @ [?P, ?G]"
    using signUp_try_requests [OF name mail, of rt w] signUp_requests [OF assms(1-4), of rt activityName]
    by (simp add: signup_url_def)
  have acc: "fst ?S = None \<and> requests (snd ?S) = requests w @ [?P, ?G]
      \<and> alerts (snd ?S) = alerts w @ [s]"
    if "net w (length (requests w)) = Inr r" "ok r" "body r = Some j"
      "subst rt (get_prop (Some j) (lit ''message'')) = Inr s" for r j s
    using signUp_accepted [OF assms(1-4) name mail that]
    by (simp add: loadActivities_frame alert_def signup_url_def)
  have str: "requests (snd ?S) = requests w @ [?P, ?G] \<and> alerts (snd ?S) = alerts w @ [message]"
    if "net w (length (requests w)) = Inr r" "ok r" "body r = Some (Obj kvs)"
      "map_of kvs (lit ''message'') = Some (Str message)" for r kvs message
  proof -
    from that(4) have "subst rt (get_prop (Some (Obj kvs)) (lit ''message'')) = Inr message"
      by (simp add: subst_def get_prop_def value_to_string_def)
    from acc [OF that(1-3) this] show ?thesis by simp
  qed
  have acc': "\<forall>r j s. net w (length (requests w)) = Inr r \<and> ok r \<and> body r = Some j
             \<and> subst rt (get_prop (Some j) (lit ''message'')) = Inr s \<longrightarrow>
           fst ?S = None \<and> requests (snd ?S) = requests w @ [?P, ?G]
           \<and> alerts (snd ?S) = alerts w @ [s]"
    by (intro allI impI, elim conjE, rule acc)
  have str': "\<forall>r kvs message. net w (length (requests w)) = Inr r \<and> ok r
             \<and> body r = Some (Obj kvs)
             \<and> map_of kvs (lit ''message'') = Some (Str message) \<longrightarrow>
           requests (snd ?S) = requests w @ [?P, ?G]
           \<and> alerts (snd ?S) = alerts w @ [message]"
    by (intro allI impI, elim conjE, rule str)
  show ?thesis
    by (rule exI [of _ name], rule exI [of _ mail])
       (intro conjI name mail safe one acc' str')
qed

theorem signUp_success_witness:
  "requests (snd (signUp some_runtime (lit ''Chess Club'')
       (page (lit '' b@x.org '')
         (answering 200 (Some (Obj [(lit ''message'', Str (lit ''Signed up''))])))))) =
     [\<lparr>request_method = POST,
        url = lit ''/activities/'' @ lit ''Chess%20Club'' @ lit ''/signup?email=''
              @ lit ''b%40x.org''\<rparr>,
      \<lparr>request_method = GET, url = lit ''/activities''\<rparr>]
   \<and> alerts (snd (signUp some_runtime (lit ''Chess Club'')
       (page (lit '' b@x.org '')
         (answering 200 (Some (Obj [(lit ''message'', Str (lit ''Signed up''))])))))) =
     [lit ''Signed up'']"
proof -
  let ?w = "page (lit '' b@x.org '')
         (answering 200 (Some (Obj [(lit ''message'', Str (lit ''Signed up''))])))"
  let ?r = "\<lparr>status = 200, body = Some (Obj [(lit ''message'', Str (lit ''Signed up''))])\<rparr>"
  have h: "emailInput ?w = Some (lit '' b@x.org '')" "trim (lit '' b@x.org '') = lit ''b@x.org''"
    "lit ''b@x.org'' \<noteq> []" "0x40 \<in> set (lit ''b@x.org'')"
    "well_formed (lit ''Chess Club'')" "well_formed (lit ''b@x.org'')"
    by (simp_all add: page_def trim_mail mail_at examples_well_formed)
  have r: "net ?w (length (requests ?w)) = Inr ?r" "ok ?r"
    "body ?r = Some (Obj [(lit ''message'', Str (lit ''Signed up''))])"
    "map_of [(lit ''message'', Str (lit ''Signed up''))] (lit ''message'')
       = Some (Str (lit ''Signed up''))"
    "requests ?w = []" "alerts ?w = []"
    by (simp_all add: page_def answering_def ok_def)
  from signUp_success [OF h, of some_runtime] obtain name mail where
    e: "encodeURIComponent (lit ''Chess Club'') = Inr name"
      "encodeURIComponent (lit ''b@x.org'') = Inr mail"
    and s: "\<forall>r kvs message. net ?w (length (requests ?w)) = Inr r \<and> ok r
             \<and> body r = Some (Obj kvs)
             \<and> map_of kvs (lit ''message'') = Some (Str message) \<longrightarrow>
           requests (snd (signUp some_runtime (lit ''Chess Club'') ?w)) =
               requests ?w @ [\<lparr>request_method = POST,
                 url = lit ''/activities/'' @ name @ lit ''/signup?email='' @ mail\<rparr>,
                 \<lparr>request_method = GET, url = lit ''/activities''\<rparr>]
           \<and> alerts (snd (signUp some_runtime (lit ''Chess Club'') ?w)) =
               alerts ?w @ [message]"
    by blast
  from e have nm: "name = lit ''Chess%20Club''" "mail = lit ''b%40x.org''"
    by (simp_all add: encode_chess encode_mail)
  from s r(1-4) have "requests (snd (signUp some_runtime (lit ''Chess Club'') ?w)) =
               requests ?w @ [\<lparr>request_method = POST,
                 url = lit ''/activities/'' @ name @ lit ''/signup?email='' @ mail\<rparr>,
                 \<lparr>request_method = GET, url = lit ''/activities''\<rparr>]
           \<and> alerts (snd (signUp some_runtime (lit ''Chess Club'') ?w)) =
               alerts ?w @ [lit ''Signed up'']"
    by blast
  with nm r(5,6) show ?thesis by simp
qed

text \<open>
  Claim C8, as stated: neither function ever propagates an exception. Both do on
  a page that lacks the element they use. Without the container, line 18 throws,
  the handler of \<open>loadActivities\<close> catches it and line 12 throws again, outside any
  \<open>try\<close>. Without the input field, line 48 of \<open>signUp\<close> throws before the \<open>try\<close>
  block.
\<close>

theorem missing_element_counterexample:
  "fst (loadActivities some_runtime
        ((page [] (answering 200 (Some (Obj []))))\<lparr>activitiesContainer := None\<rparr>))
     = Some TypeError
   \<and> fst (signUp some_runtime (lit ''Chess Club'')
        ((page (lit ''b@x.org'') (answering 200 None))\<lparr>emailInput := None\<rparr>))
     = Some TypeError"
  by (simp add: loadActivities_def loadActivities_try_def fetch_def page_def answering_def
      response_json_def displayActivities_def console_error_def signUp_def)

text \<open>
  Claim C8, amended. On a page with the container, the promise of
  \<open>loadActivities\<close> is never rejected, and on a page with the input field, the
  promise of \<open>signUp\<close> is never rejected. When the transport fails or the body is not
  JSON, \<open>loadActivities\<close> replaces the content of the container with the paragraph
  \<open>Error loading activities. Please try again later.\<close> When the email passes
  validation and the encoding, the transport or the parsing of the body fails,
  \<open>signUp\<close> shows the message \<open>Error signing up. Please try again later.\<close>
\<close>

theorem no_exception_escapes:
  "(activitiesContainer w \<noteq> None \<longrightarrow> fst (loadActivities rt w) = None)
   \<and> (emailInput w \<noteq> None \<longrightarrow> fst (signUp rt a w) = None)
   \<and> (\<forall>c. activitiesContainer w = Some c
        \<and> ((\<exists>e. net w (length (requests w)) = Inl e)
           \<or> (\<exists>r. net w (length (requests w)) = Inr r \<and> body r = None)) \<longrightarrow>
      activitiesContainer (snd (loadActivities rt w)) =
        Some (Node (tagName c) (className c)
                (lit ''<p>Error loading activities. Please try again later.</p>'') []))
   \<and> (\<forall>v. emailInput w = Some v \<and> trim v \<noteq> [] \<and> 0x40 \<in> set (trim v)
        \<and> (\<not> well_formed a \<or> \<not> well_formed (trim v)
           \<or> (\<exists>e. net w (length (requests w)) = Inl e)
           \<or> (\<exists>r. net w (length (requests w)) = Inr r \<and> body r = None)) \<longrightarrow>
      alerts (snd (signUp rt a w)) =
        alerts w @ [lit ''Error signing up. Please try again later.''])"
proof (intro conjI impI allI)
  assume "activitiesContainer w \<noteq> None"
  then show "fst (loadActivities rt w) = None" by (rule loadActivities_fulfilled)
next
  assume "emailInput w \<noteq> None"
  then show "fst (signUp rt a w) = None" by (rule signUp_fulfilled)
next
  fix c
  assume h: "activitiesContainer w = Some c
        \<and> ((\<exists>e. net w (length (requests w)) = Inl e)
           \<or> (\<exists>r. net w (length (requests w)) = Inr r \<and> body r = None))"
  then have "\<exists>e. loadActivities_try rt w =
      (Some e, w\<lparr>requests := requests w @
                    [\<lparr>request_method = GET, url = lit ''/activities''\<rparr>]\<rparr>)"
    by (auto simp: loadActivities_try_def fetch_def response_json_def)
  with h show "activitiesContainer (snd (loadActivities rt w)) =
        Some (Node (tagName c) (className c)
                (lit ''<p>Error loading activities. Please try again later.</p>'') [])"
    by (auto simp: loadActivities_def Let_def console_error_def set_innerHTML_def
        load_error_markup_def)
next
  fix v
  let ?email = "trim v"
  assume h: "emailInput w = Some v \<and> ?email \<noteq> [] \<and> 0x40 \<in> set ?email
        \<and> (\<not> well_formed a \<or> \<not> well_formed ?email
           \<or> (\<exists>e. net w (length (requests w)) = Inl e)
           \<or> (\<exists>r. net w (length (requests w)) = Inr r \<and> body r = None))"
  have "\<exists>e w1. signUp_try rt a ?email w = (Some e, w1) \<and> alerts w1 = alerts w"
  proof (cases "well_formed a \<and> well_formed ?email")
    case False
    then show ?thesis using signUp_try_ill_formed [of a ?email rt w] by auto
  next
    case True
    then obtain name mail where
      enc: "encodeURIComponent a = Inr name" "encodeURIComponent ?email = Inr mail"
      using encodeURIComponent_well_formed by blast
    from True h consider e where "net w (length (requests w)) = Inl e"
      | r where "net w (length (requests w)) = Inr r" "body r = None" by blast
    then show ?thesis
    proof cases
      case 1
      from signUp_try_offline [OF enc 1, of rt] show ?thesis by simp
    next
      case 2
      from signUp_try_response [OF enc 2(1), of rt] 2(2) show ?thesis
        by (simp add: Let_def response_json_def)
    qed
  qed
  then obtain e w1 where t: "signUp_try rt a ?email w = (Some e, w1)" "alerts w1 = alerts w"
    by blast
  from h have "signUp rt a w =
      (None, alert (console_error w1 (lit ''Error signing up:'') e) signup_error_message)"
    using signUp_valid [of w v ?email rt a] t(1) by simp
  then show "alerts (snd (signUp rt a w)) =
      alerts w @ [lit ''Error signing up. Please try again later.'']"
    using t(2) by (simp add: alert_def console_error_def signup_error_message_def)
qed

theorem no_exception_escapes_witness:
  "activitiesContainer (page (lit '' b@x.org '') offline) = Some (Node (lit ''div'') [] [] [])
   \<and> emailInput (page (lit '' b@x.org '') offline) = Some (lit '' b@x.org '')
   \<and> net (page (lit '' b@x.org '') offline)
        (length (requests (page (lit '' b@x.org '') offline))) = Inl TypeError
   \<and> trim (lit '' b@x.org '') \<noteq> []
   \<and> 0x40 \<in> set (trim (lit '' b@x.org ''))
   \<and> fst (loadActivities some_runtime (page (lit '' b@x.org '') offline)) = None
   \<and> fst (signUp some_runtime (lit ''Chess Club'') (page (lit '' b@x.org '') offline)) = None
   \<and> activitiesContainer (snd (loadActivities some_runtime (page (lit '' b@x.org '') offline))) =
        Some (Node (lit ''div'') []
                (lit ''<p>Error loading activities. Please try again later.</p>'') [])
   \<and> alerts (snd (signUp some_runtime (lit ''Chess Club'') (page (lit '' b@x.org '') offline))) =
        [lit ''Error signing up. Please try again later.'']"
  using no_exception_escapes [of "page (lit '' b@x.org '') offline" some_runtime "lit ''Chess Club''"]
  by (simp add: page_def offline_def trim_mail mail_at)

end
